theory Spec2Isabelle
  imports Main "HOL-Library.Sublist" "HOL-Library.AList" "HOL-Library.Word"
begin

section \<open>JavaScript values, errors and promises\<close>

text \<open>
  The development embeds the message bus of the browser extension
  (\<^verbatim>\<open>BrowserMsg\<close>), the request helper \<^verbatim>\<open>Api\<close> and the
  authorisation popup of \<^verbatim>\<open>GoogleOAuth\<close>. Thrown values are ordinary data:
  an error object has a class, a message and a stack. Wherever the source constructs an
  error with \<^verbatim>\<open>new Error(...)\<close>, the stack text that the engine attaches at that
  point is an argument \<open>stk\<close> of the model.
\<close>

type_synonym bytes = "8 word list"

definition nl :: string where
  "nl = [CHR 0x0A]"

record AjaxErrDetails =
  status :: int
  url :: string
  responseText :: string
  statusText :: string
  resMsg :: "string option"
  resDetails :: "string option"

datatype err_class = Error | BgNotReadyErr | TypeError | AjaxErr AjaxErrDetails

record js_err =
  cls :: err_class
  message :: string
  stack :: string

text \<open>The state of a promise once the event loop has run: settled either way, or never settled.\<close>

datatype 'a promise = Resolved 'a | Rejected js_err | Pending

text \<open>\<^verbatim>\<open>String.prototype.includes\<close>: the argument occurs as a contiguous substring.\<close>

definition str_includes :: "string \<Rightarrow> string \<Rightarrow> bool" where
  "str_includes s sub = sublist sub s"

section \<open>Api: the path-traversal guard, download and ajax\<close>

definition throwIfApiPathTraversalAttempted :: "string \<Rightarrow> string \<Rightarrow> js_err + unit" where
  "throwIfApiPathTraversalAttempted stk requestUrl =
     (if str_includes requestUrl ''../'' \<or> str_includes requestUrl ''/..''
      then Inl \<lparr>cls = Error, message = ''API path traversal forbidden: '' @ requestUrl, stack = stk\<rparr>
      else Inr ())"

text \<open>
  What the XMLHttpRequest of \<^verbatim>\<open>Api.download\<close> reports: the fields the handlers read
  from the request, and which of the three events fired. \<^verbatim>\<open>AjaxErr.fromXhr\<close> is
  declared in a file outside the sources and is a parameter \<open>fromXhr\<close>
  (ready state, status, status text, url, method, stack).
\<close>

record xhr_state =
  readyState :: int
  xhr_status :: int
  xhr_statusText :: string
  xhr_response :: bytes

datatype xhr_event = OnLoad xhr_state | OnError "xhr_state option" | OnTimeout "xhr_state option"

type_synonym from_xhr = "int \<Rightarrow> int option \<Rightarrow> string option \<Rightarrow> string option \<Rightarrow> string \<Rightarrow> string \<Rightarrow> js_err"

definition download_errHandler ::
  "string \<Rightarrow> from_xhr \<Rightarrow> string \<Rightarrow> string \<Rightarrow> xhr_state option \<Rightarrow> bytes promise" where
  "download_errHandler stk fromXhr stackTrace u target =
     (case target of
        None \<Rightarrow> Rejected \<lparr>cls = Error,
            message = ''Api.download('' @ u @ '') failed with a null progressEvent.target'', stack = stk\<rparr>
      | Some x \<Rightarrow> Rejected (fromXhr (readyState x) (Some (xhr_status x)) (Some (xhr_statusText x))
            (Some u) ''GET'' stackTrace))"

text \<open>
  \<^verbatim>\<open>Api.download\<close> returns the promise together with the list of network requests
  (method, url) it issued. The guard runs first inside the promise executor, so its
  throw rejects the promise before any request object exists.
\<close>

definition download ::
  "string \<Rightarrow> from_xhr \<Rightarrow> string \<Rightarrow> (string \<Rightarrow> xhr_event) \<Rightarrow> string \<Rightarrow> bytes promise \<times> (string \<times> string) list" where
  "download stk fromXhr stackTrace net u =
     (case throwIfApiPathTraversalAttempted stk u of
        Inl e \<Rightarrow> (Rejected e, [])
      | Inr _ \<Rightarrow>
          ((case net u of
              OnLoad x \<Rightarrow> (if xhr_status x \<le> 299 then Resolved (xhr_response x)
                           else download_errHandler stk fromXhr stackTrace u (Some x))
            | OnError t \<Rightarrow> download_errHandler stk fromXhr stackTrace u t
            | OnTimeout t \<Rightarrow> download_errHandler stk fromXhr stackTrace u t),
           [(''GET'', u)]))"

text \<open>
  The request settings \<^verbatim>\<open>Api.ajax\<close> reads, and what \<^verbatim>\<open>$.ajax\<close> does with them:
  it resolves with data and the xhr object, or rejects with a thrown value, which is an
  \<^verbatim>\<open>Error\<close>, a raw jQuery failure (an object with a numeric ready state) or anything
  else, kept as its \<^verbatim>\<open>String(e)\<close> text.
\<close>

record ajax_req =
  req_url :: "string option"
  req_method :: string
  req_dataType :: "string option"

record raw_ajax_err =
  raw_readyState :: int
  raw_responseText :: "string option"
  raw_status :: "int option"
  raw_statusText :: "string option"

datatype 'r jq_result = JqDone 'r 'r | JqThrewError js_err | JqThrewRaw raw_ajax_err | JqThrewOther string

definition or_empty :: "string option \<Rightarrow> string" where
  "or_empty s = (case s of None \<Rightarrow> [] | Some x \<Rightarrow> x)"

definition tpl :: "string option \<Rightarrow> string" where
  \<comment> \<open>a template literal renders an absent value as the text undefined\<close>
  "tpl s = (case s of None \<Rightarrow> ''undefined'' | Some x \<Rightarrow> x)"

text \<open>
  \<^verbatim>\<open>Api.ajax\<close>: in a content script the request is handed to the background page over
  the bus (\<open>viaBg\<close> is what that call settles to) and nothing is requested locally.
  Otherwise the guard runs on \<^verbatim>\<open>req.url || ''\<close> before \<^verbatim>\<open>$.ajax\<close>, which is
  given the settings with the data type \<^verbatim>\<open>xhr\<close> replaced by \<^verbatim>\<open>undefined\<close>; those
  settings are the request recorded.
\<close>

definition ajax ::
  "bool \<Rightarrow> (ajax_req \<Rightarrow> 'r promise) \<Rightarrow> string \<Rightarrow> from_xhr \<Rightarrow> (ajax_req \<Rightarrow> 'r jq_result) \<Rightarrow>
     ajax_req \<Rightarrow> string \<Rightarrow> 'r promise \<times> ajax_req list" where
  "ajax isContentScript viaBg stk fromXhr jq req stackArg =
     (if isContentScript then (viaBg req, [])
      else
        (case throwIfApiPathTraversalAttempted stk (or_empty (req_url req)) of
           Inl e \<Rightarrow> (Rejected e, [])
         | Inr _ \<Rightarrow>
             (let settings = req\<lparr>req_dataType :=
                               (if req_dataType req = Some ''xhr'' then None else req_dataType req)\<rparr> in
              ((case jq settings of
                  JqDone d xhr \<Rightarrow> (if req_dataType req = Some ''xhr'' then Resolved xhr else Resolved d)
                | JqThrewError e \<Rightarrow> Rejected e
                | JqThrewRaw r \<Rightarrow> Rejected (fromXhr (raw_readyState r) (raw_status r) (raw_statusText r)
                      (req_url req) (req_method req) stackArg)
                | JqThrewOther s \<Rightarrow> Rejected \<lparr>cls = Error,
                      message = ''Unknown Ajax error ('' @ s @ '') type when calling '' @ tpl (req_url req),
                      stack = stk\<rparr>),
               [settings]))))"

section \<open>GoogleOAuth: the authorisation popup\<close>

text \<open>
  A string-valued expression used as a condition: \<^verbatim>\<open>undefined\<close> and the empty
  string are falsy.
\<close>

definition truthy_str :: "string option \<Rightarrow> bool" where
  "truthy_str s = (case s of None \<Rightarrow> False | Some x \<Rightarrow> x \<noteq> [])"

text \<open>
  Lower-casing of the ASCII letters only; it stands in for
  \<^verbatim>\<open>String.prototype.toLowerCase\<close> in the concrete run below. The model itself takes
  the engine's function as a parameter.
\<close>

definition ascii_lower :: "string \<Rightarrow> string" where
  "ascii_lower s = map (\<lambda>c. let n = (of_char c :: nat) in if 65 \<le> n \<and> n \<le> 90 then char_of (n + 32) else c) s"

datatype auth_tag = ResSuccess | ResDenied | ResError | ResClosed

record AuthRes =
  auth_result :: auth_tag
  auth_acctEmail :: "string option"
  auth_error :: "string option"
  auth_id_token :: "string option"

record AuthWindowResult =
  win_url :: "string option"
  win_error :: "string option"

record AuthReq =
  ar_acctEmail :: "string option"
  ar_scopes :: "string list"
  ar_csrfToken :: string
  ar_expectedState :: string

text \<open>
  A value caught by \<^verbatim>\<open>getAuthRes\<close>: an \<^verbatim>\<open>AssertError\<close> or anything else; both
  carry the text \<^verbatim>\<open>String(err)\<close>.
\<close>

datatype oauth_thrown = AssertError string | OtherThrown string

record GoogleAuthTokensResponse =
  tok_access_token :: string
  tok_id_token :: "string option"

text \<open>
  The collaborators of the popup flow are declared outside the sources; the model takes
  what they return: \<^verbatim>\<open>String.prototype.toLowerCase\<close>, the build flavour, the random
  token, \<^verbatim>\<open>JSON.stringify\<close> of the request, \<^verbatim>\<open>Url.create\<close>, the popup itself (\<^verbatim>\<open>OAuth2.webAuthFlow\<close>),
  \<^verbatim>\<open>Url.parse\<close> with the three \<^verbatim>\<open>Assert.urlParamRequire\<close> checks (scope, code, state),
  the token request, \<^verbatim>\<open>parseIdToken\<close> (the email claim), the token store, and the account
  set-up after a grant, which returns nothing or the text of the thrown value together
  with the verdict of \<^verbatim>\<open>isFesUnreachableErr\<close>.
\<close>

record oauth_env =
  toLowerCase :: "string \<Rightarrow> string"
  FLAVOR :: string
  GOOGLE_OAUTH_SCREEN_HOST :: string
  randomFortyHexChars :: string
  JSON_stringify :: "string option \<Rightarrow> string list \<Rightarrow> string \<Rightarrow> string"
  Url_create :: "string \<Rightarrow> (string \<times> string option) list \<Rightarrow> string"
  webAuthFlow :: "string \<Rightarrow> oauth_thrown + AuthWindowResult"
  urlParams :: "string \<Rightarrow> oauth_thrown + (string \<times> string option \<times> string)"
  googleAuthGetTokens :: "string \<Rightarrow> oauth_thrown + GoogleAuthTokensResponse"
  parseIdToken :: "string option \<Rightarrow> oauth_thrown + string option"
  googleAuthSaveTokens :: "string \<Rightarrow> GoogleAuthTokensResponse \<Rightarrow> oauth_thrown + unit"
  accountSetup :: "string \<Rightarrow> (string \<times> bool) option"

definition scope_email :: string where "scope_email = ''email''"
definition scope_openid :: string where "scope_openid = ''openid''"
definition scope_profile :: string where "scope_profile = ''https://www.googleapis.com/auth/userinfo.profile''"
definition scope_compose :: string where "scope_compose = ''https://www.googleapis.com/auth/gmail.compose''"
definition scope_modify :: string where "scope_modify = ''https://www.googleapis.com/auth/gmail.modify''"
definition scope_readContacts :: string where
  "scope_readContacts = ''https://www.googleapis.com/auth/contacts.readonly''"
definition scope_readOtherContacts :: string where
  "scope_readOtherContacts = ''https://www.googleapis.com/auth/contacts.other.readonly''"
definition OAUTH_state_header :: string where "OAUTH_state_header = ''CRYPTUP_STATE_''"
definition OAUTH_client_id :: string where
  "OAUTH_client_id = ''717284730244-5oejn54f10gnrektjdc4fv4rbic1bj1p.apps.googleusercontent.com''"
definition OAUTH_redirect_uri :: string where "OAUTH_redirect_uri = ''https://www.google.com/robots.txt''"

definition defaultScopes :: "string \<Rightarrow> string \<Rightarrow> oauth_thrown + string list" where
  "defaultScopes flavor grp =
     (if grp = ''default'' then
        (if flavor = ''consumer'' then
           Inr [scope_openid, scope_email, scope_profile, scope_compose, scope_modify]
         else if flavor = ''enterprise'' then
           Inr [scope_openid, scope_email, scope_profile, scope_compose, scope_modify,
                scope_readContacts, scope_readOtherContacts]
         else Inl (OtherThrown (''Error: Unknown build '' @ flavor)))
      else if grp = ''contacts'' then
        Inr [scope_openid, scope_email, scope_profile, scope_compose, scope_modify,
             scope_readContacts, scope_readOtherContacts]
      else Inl (OtherThrown (''Error: Unknown scope group '' @ grp)))"

definition push_missing :: "string \<Rightarrow> string list \<Rightarrow> string list" where
  "push_missing s xs = (if s \<in> set xs then xs else xs @ [s])"

definition apiGoogleAuthPopupPrepareAuthReqScopes :: "string list \<Rightarrow> string list" where
  "apiGoogleAuthPopupPrepareAuthReqScopes addScopes =
     push_missing scope_profile (push_missing scope_openid (push_missing scope_email addScopes))"

definition newAuthRequest :: "oauth_env \<Rightarrow> string option \<Rightarrow> string list \<Rightarrow> AuthReq" where
  "newAuthRequest env acctEmail scopes =
     (let csrfToken = ''csrf-'' @ randomFortyHexChars env in
      \<lparr>ar_acctEmail = acctEmail, ar_scopes = scopes, ar_csrfToken = csrfToken,
       ar_expectedState = OAUTH_state_header @ JSON_stringify env acctEmail scopes csrfToken\<rparr>)"

fun join_with :: "string \<Rightarrow> string list \<Rightarrow> string" where
  "join_with sep [] = []"
| "join_with sep [x] = x"
| "join_with sep (x # y # ys) = x @ sep @ join_with sep (y # ys)"

definition apiGoogleAuthCodeUrl :: "oauth_env \<Rightarrow> AuthReq \<Rightarrow> string" where
  "apiGoogleAuthCodeUrl env authReq =
     Url_create env (GOOGLE_OAUTH_SCREEN_HOST env @ ''/o/oauth2/auth'')
       [(''client_id'', Some OAUTH_client_id),
        (''response_type'', Some ''code''),
        (''access_type'', Some ''offline''),
        (''prompt'', Some ''consent''),
        (''state'', Some (ar_expectedState authReq)),
        (''redirect_uri'', Some OAUTH_redirect_uri),
        (''scope'', Some (join_with '' '' (ar_scopes authReq))),
        (''login_hint'', ar_acctEmail authReq)]"

definition retrieveAndSaveAuthToken :: "oauth_env \<Rightarrow> string \<Rightarrow> oauth_thrown + string option" where
  "retrieveAndSaveAuthToken env authCode =
     (case googleAuthGetTokens env authCode of
        Inl e \<Rightarrow> Inl e
      | Inr tokensObj \<Rightarrow>
          (case parseIdToken env (tok_id_token tokensObj) of
             Inl e \<Rightarrow> Inl e
           | Inr email \<Rightarrow>
               (case email of
                  None \<Rightarrow> Inl (OtherThrown ''Error: Missing email address in id_token'')
                | Some em \<Rightarrow>
                    (if em = [] then Inl (OtherThrown ''Error: Missing email address in id_token'')
                     else
                       (case googleAuthSaveTokens env em tokensObj of
                          Inl e \<Rightarrow> Inl e
                        | Inr _ \<Rightarrow> Inr (tok_id_token tokensObj))))))"

definition denied :: "string option \<Rightarrow> string \<Rightarrow> AuthRes" where
  "denied acctEmail reason =
     \<lparr>auth_result = ResDenied, auth_acctEmail = acctEmail, auth_error = Some reason, auth_id_token = None\<rparr>"

definition errored :: "string option \<Rightarrow> string \<Rightarrow> AuthRes" where
  "errored acctEmail reason =
     \<lparr>auth_result = ResError, auth_acctEmail = acctEmail, auth_error = Some reason, auth_id_token = None\<rparr>"

text \<open>The \<^verbatim>\<open>catch\<close> block of \<^verbatim>\<open>getAuthRes\<close>.\<close>

definition getAuthRes_catch :: "string option \<Rightarrow> oauth_thrown \<Rightarrow> AuthRes" where
  "getAuthRes_catch acctEmail err =
     (case err of
        AssertError _ \<Rightarrow> errored acctEmail ''Could not parse URL returned from Google''
      | OtherThrown s \<Rightarrow> denied acctEmail s)"

definition scopesToCheck :: "string list" where
  "scopesToCheck = [scope_compose, scope_modify, scope_readContacts, scope_readOtherContacts]"

definition getAuthRes ::
  "oauth_env \<Rightarrow> string option \<Rightarrow> bool \<Rightarrow> string list \<Rightarrow> string \<Rightarrow> AuthWindowResult \<Rightarrow> AuthRes" where
  "getAuthRes env acctEmail save requestedScopes expectedState authWindowResult =
     (if \<not> truthy_str (win_url authWindowResult) then denied acctEmail ''Invalid response url''
      else if truthy_str (win_error authWindowResult)
        then denied acctEmail (or_empty (win_error authWindowResult))
      else
        (case urlParams env (or_empty (win_url authWindowResult)) of
           Inl err \<Rightarrow> getAuthRes_catch acctEmail err
         | Inr (allowedScopes, code, receivedState) \<Rightarrow>
             (if list_ex (\<lambda>scopeToCheck. scopeToCheck \<in> set requestedScopes
                            \<and> \<not> str_includes allowedScopes scopeToCheck) scopesToCheck
                then denied acctEmail ''Missing permissions''
              else if \<not> truthy_str code
                then denied acctEmail ''Google auth result was 'Success' but no auth code''
              else if receivedState \<noteq> expectedState
                then errored acctEmail ''Wrong oauth CSRF token. Please try again.''
              else
                (case (if save then retrieveAndSaveAuthToken env (or_empty code)
                       else map_sum id tok_id_token (googleAuthGetTokens env (or_empty code))) of
                   Inl err \<Rightarrow> getAuthRes_catch acctEmail err
                 | Inr id_token \<Rightarrow>
                     (case parseIdToken env id_token of
                        Inl err \<Rightarrow> getAuthRes_catch acctEmail err
                      | Inr email \<Rightarrow>
                          (if \<not> truthy_str email
                             then getAuthRes_catch acctEmail (OtherThrown ''Error: Missing email address in id_token'')
                           else \<lparr>auth_result = ResSuccess, auth_acctEmail = email, auth_error = None,
                                 auth_id_token = id_token\<rparr>))))))"

text \<open>
  \<^verbatim>\<open>newAuthPopup\<close> from line 162 on: what it returns for the result of
  \<^verbatim>\<open>getAuthRes\<close>.
\<close>

definition newAuthPopup_return :: "oauth_env \<Rightarrow> AuthRes \<Rightarrow> AuthRes" where
  "newAuthPopup_return env authRes =
     (if auth_result authRes = ResSuccess then
        (if \<not> truthy_str (auth_id_token authRes)
           then errored (auth_acctEmail authRes) ''Grant was successful but missing id_token''
         else if \<not> truthy_str (auth_acctEmail authRes)
           then errored (auth_acctEmail authRes) ''Grant was successful but missing acctEmail''
         else
           (case accountSetup env (or_empty (auth_acctEmail authRes)) of
              None \<Rightarrow> authRes
            | Some (e, fesUnreachable) \<Rightarrow>
                (if fesUnreachable
                   then errored (auth_acctEmail authRes)
                     (''Cannot reach your company's FlowCrypt External Service (FES). Contact your Help Desk when unsure. (''
                        @ e @ '')'')
                 else errored (auth_acctEmail authRes) (''Grant successful but error accessing fc account: '' @ e))))
      else authRes)"

definition newAuthPopup ::
  "oauth_env \<Rightarrow> string option \<Rightarrow> string list option \<Rightarrow> bool option \<Rightarrow> oauth_thrown + AuthRes" where
  "newAuthPopup env acctEmail0 scopes0 save0 =
     (let acctEmail = (if truthy_str acctEmail0 then map_option (toLowerCase env) acctEmail0 else acctEmail0);
          save = (case save0 of None \<Rightarrow> True | Some b \<Rightarrow> b);
          scopes1 = (if save \<or> scopes0 = None
                     then (case scopes0 of
                             Some s \<Rightarrow> Inr (apiGoogleAuthPopupPrepareAuthReqScopes s)
                           | None \<Rightarrow> map_sum id apiGoogleAuthPopupPrepareAuthReqScopes
                                       (defaultScopes (FLAVOR env) ''default''))
                     else Inr (case scopes0 of Some s \<Rightarrow> s | None \<Rightarrow> []))
      in case scopes1 of
           Inl e \<Rightarrow> Inl e
         | Inr scopes \<Rightarrow>
             (let authRequest = newAuthRequest env acctEmail scopes;
                  authUrl = apiGoogleAuthCodeUrl env authRequest
              in case webAuthFlow env authUrl of
                   Inl e \<Rightarrow> Inl e
                 | Inr authWindowResult \<Rightarrow>
                     Inr (newAuthPopup_return env
                            (getAuthRes env acctEmail save scopes (ar_expectedState authRequest) authWindowResult))))"

text \<open>A concrete run of the popup flow: a consumer build, a grant of the requested scopes.\<close>

definition demo_oauth_env :: oauth_env where
  "demo_oauth_env =
     \<lparr>toLowerCase = ascii_lower,
      FLAVOR = ''consumer'',
      GOOGLE_OAUTH_SCREEN_HOST = ''https://accounts.google.com'',
      randomFortyHexChars = ''00'',
      JSON_stringify = (\<lambda>_ _ c. c),
      Url_create = (\<lambda>u _. u),
      webAuthFlow = (\<lambda>_. Inr \<lparr>win_url = Some ''https://www.google.com/robots.txt?code=c'', win_error = None\<rparr>),
      urlParams = (\<lambda>_. Inr (scope_compose @ '' '' @ scope_modify, Some ''c'', ''CRYPTUP_STATE_csrf-00'')),
      googleAuthGetTokens = (\<lambda>_. Inr \<lparr>tok_access_token = ''at'', tok_id_token = Some ''idt''\<rparr>),
      parseIdToken = (\<lambda>_. Inr (Some ''user@example.com'')),
      googleAuthSaveTokens = (\<lambda>_ _. Inr ()),
      accountSetup = (\<lambda>_. None)\<rparr>"

section \<open>BrowserMsg: values and the binary indirection\<close>

text \<open>
  Structured data as the bus sees it. An object is the list of its own enumerable
  properties in \<^verbatim>\<open>Object.keys\<close> order; a \<^verbatim>\<open>Uint8Array\<close> (or \<^verbatim>\<open>Buf\<close>) is a
  list of bytes. Reading a property that is not there gives \<^verbatim>\<open>undefined\<close>, and an
  assignment overwrites the property in place or appends it.
\<close>

datatype jsv = JUndefined | JNull | JBool bool | JNum int | JStr string | JBuf bytes
  | JObj "(string \<times> jsv) list"

definition truthy :: "jsv \<Rightarrow> bool" where
  "truthy v = (case v of JUndefined \<Rightarrow> False | JNull \<Rightarrow> False | JBool b \<Rightarrow> b | JNum n \<Rightarrow> n \<noteq> 0
                | JStr s \<Rightarrow> s \<noteq> [] | JBuf _ \<Rightarrow> True | JObj _ \<Rightarrow> True)"

definition typeof_object :: "jsv \<Rightarrow> bool" where
  "typeof_object v = (case v of JNull \<Rightarrow> True | JBuf _ \<Rightarrow> True | JObj _ \<Rightarrow> True | _ \<Rightarrow> False)"

definition is_Uint8Array :: "jsv \<Rightarrow> bool" where
  "is_Uint8Array v = (case v of JBuf _ \<Rightarrow> True | _ \<Rightarrow> False)"

definition get_field :: "(string \<times> jsv) list \<Rightarrow> string \<Rightarrow> jsv" where
  "get_field fs k = (case map_of fs k of None \<Rightarrow> JUndefined | Some v \<Rightarrow> v)"

text \<open>
  Modelled from the spec: the blob store behind \<^verbatim>\<open>Browser.objUrlCreate\<close> and
  \<^verbatim>\<open>Browser.objUrlConsume\<close>, which are declared outside the sources. The spec gives
  \<^verbatim>\<open>create(bytes) -> handle\<close> and \<^verbatim>\<open>consume(handle) -> bytes\<close>, consuming and
  invalidating the handle exactly once. A handle is a number that is never issued
  twice; consuming a handle that is not live fails with the error \<open>on_invalid\<close>.
\<close>

type_synonym handle = nat

record blob_store =
  next_handle :: nat
  blobs :: "handle \<rightharpoonup> bytes"
  on_invalid :: "handle \<Rightarrow> js_err"

definition objUrlCreate :: "blob_store \<Rightarrow> bytes \<Rightarrow> handle \<times> blob_store" where
  "objUrlCreate s b =
     (next_handle s, s\<lparr>next_handle := Suc (next_handle s), blobs := (blobs s)(next_handle s \<mapsto> b)\<rparr>)"

definition objUrlConsume :: "blob_store \<Rightarrow> handle \<Rightarrow> js_err + (bytes \<times> blob_store)" where
  "objUrlConsume s h =
     (case blobs s h of
        None \<Rightarrow> Inl (on_invalid s h)
      | Some b \<Rightarrow> Inr (b, s\<lparr>blobs := (blobs s)(h := None)\<rparr>))"

definition wf_store :: "blob_store \<Rightarrow> bool" where
  \<comment> \<open>every live handle was issued before\<close>
  "wf_store s = (\<forall>h. blobs s h \<noteq> None \<longrightarrow> h < next_handle s)"

text \<open>
  \<^verbatim>\<open>replaceBufWithObjUrlInplace\<close>: the loop over \<^verbatim>\<open>Object.keys(requestOrResponse)\<close>.
  It reads each property of the object as it is at that moment, and for a byte buffer
  records a new handle under the property's name and overwrites the property with
  \<^verbatim>\<open>undefined\<close>. The function returns the handles, the mutated value and the store.
\<close>

fun replaceBuf_loop ::
  "string list \<Rightarrow> blob_store \<Rightarrow> (string \<times> jsv) list \<Rightarrow> (string \<times> handle) list \<Rightarrow>
     (string \<times> handle) list \<times> (string \<times> jsv) list \<times> blob_store" where
  "replaceBuf_loop [] s fs objUrls = (objUrls, fs, s)"
| "replaceBuf_loop (k # ks) s fs objUrls =
     (case get_field fs k of
        JBuf b \<Rightarrow>
          (case objUrlCreate s b of
             (h, s') \<Rightarrow> replaceBuf_loop ks s' (AList.update k JUndefined fs) (AList.update k h objUrls))
      | _ \<Rightarrow> replaceBuf_loop ks s fs objUrls)"

text \<open>
  The keys of a typed array are its indices and its elements are numbers, so a top-level
  byte buffer is left as it is, like every value that is not an object.
\<close>

definition replaceBufWithObjUrlInplace ::
  "blob_store \<Rightarrow> jsv \<Rightarrow> (string \<times> handle) list \<times> jsv \<times> blob_store" where
  "replaceBufWithObjUrlInplace s requestOrResponse =
     (if truthy requestOrResponse \<and> typeof_object requestOrResponse then
        (case requestOrResponse of
           JObj fs \<Rightarrow> (case replaceBuf_loop (map fst fs) s fs [] of
                        (objUrls, fs', s') \<Rightarrow> (objUrls, JObj fs', s'))
         | _ \<Rightarrow> ([], requestOrResponse, s))
      else ([], requestOrResponse, s))"

text \<open>
  \<^verbatim>\<open>replaceObjUrlWithBuf\<close>: for every recorded name, in order, the handle is consumed
  and the bytes are stored under that name. A failed consumption rejects the promise;
  the store keeps what was consumed until then.
\<close>

fun replaceObjUrl_loop ::
  "(string \<times> handle) list \<Rightarrow> blob_store \<Rightarrow> (string \<times> jsv) list \<Rightarrow>
     (js_err + (string \<times> jsv) list) \<times> blob_store" where
  "replaceObjUrl_loop [] s fs = (Inr fs, s)"
| "replaceObjUrl_loop ((k, h) # rest) s fs =
     (case objUrlConsume s h of
        Inl e \<Rightarrow> (Inl e, s)
      | Inr (b, s') \<Rightarrow> replaceObjUrl_loop rest s' (AList.update k (JBuf b) fs))"

definition replaceObjUrlWithBuf ::
  "blob_store \<Rightarrow> jsv \<Rightarrow> (string \<times> handle) list \<Rightarrow> (js_err + jsv) \<times> blob_store" where
  "replaceObjUrlWithBuf s requestOrResponse objUrls =
     (if truthy requestOrResponse \<and> typeof_object requestOrResponse then
        (case requestOrResponse of
           JObj fs \<Rightarrow> (case replaceObjUrl_loop objUrls s fs of
                        (Inr fs', s') \<Rightarrow> (Inr (JObj fs'), s')
                      | (Inl e, s') \<Rightarrow> (Inl e, s'))
         | _ \<Rightarrow> (case replaceObjUrl_loop objUrls s [] of
                  (Inr _, s') \<Rightarrow> (Inr requestOrResponse, s')
                | (Inl e, s') \<Rightarrow> (Inl e, s')))
      else (Inr requestOrResponse, s))"

section \<open>BrowserMsg: error marshalling\<close>

datatype ErrAsJson =
    StandardErrAsJson "string option" string
  | AjaxErrAsJson "string option" string AjaxErrDetails

text \<open>
  \<^verbatim>\<open>Catch.rewrapErr\<close> is declared outside the sources: it is the parameter \<open>rewrapErr\<close>.
  The constructor of \<^verbatim>\<open>AjaxErr\<close> (message, stack, status, url, responseText, statusText,
  resMsg, resDetails) stores each argument in the field that \<^verbatim>\<open>errToJson\<close> reads back.
\<close>

type_synonym rewrap = "js_err \<Rightarrow> string \<Rightarrow> js_err"

definition errToJson :: "rewrap \<Rightarrow> js_err \<Rightarrow> ErrAsJson" where
  "errToJson rewrapErr e =
     (case cls e of
        AjaxErr d \<Rightarrow> AjaxErrAsJson (Some (stack e)) (message e) d
      | _ \<Rightarrow> (let w = rewrapErr e ''sendRawResponse'' in StandardErrAsJson (Some (stack w)) (message w)))"

definition json_stack :: "ErrAsJson \<Rightarrow> string option" where
  "json_stack j = (case j of StandardErrAsJson st _ \<Rightarrow> st | AjaxErrAsJson st _ _ \<Rightarrow> st)"

definition stackInfo :: "string \<Rightarrow> string option \<Rightarrow> string" where
  "stackInfo callerStack responderStack =
     nl @ nl @ ''[callerStack]'' @ nl @ callerStack @ nl @ ''[/callerStack]'' @ nl @ nl
       @ ''[responderStack]'' @ nl @ tpl responderStack @ nl @ ''[/responderStack]'' @ nl"

section \<open>BrowserMsg: envelopes and contexts\<close>

text \<open>
  \<^verbatim>\<open>Bm.Raw\<close> with the optional window extensions (\<^verbatim>\<open>responseName\<close>,
  \<^verbatim>\<open>propagateToParent\<close>); an absent flag reads as false.
\<close>

record Raw =
  msg_name :: string
  msg_bm :: jsv
  msg_objUrls :: "(string \<times> handle) list"
  msg_to :: "string option"
  msg_uid :: string
  msg_stack :: string
  msg_responseName :: "string option"
  msg_propagateToParent :: bool

record RawResponse =
  res_result :: jsv
  res_objUrls :: "(string \<times> handle) list"
  res_exception :: "ErrAsJson option"

text \<open>
  \<^verbatim>\<open>jsonToErr\<close>; \<open>stk\<close> is the stack the engine gives the new \<^verbatim>\<open>Error\<close>, to which
  the stack information is appended. An \<^verbatim>\<open>AjaxErr\<close> takes the stack information as its
  stack.
\<close>

definition jsonToErr :: "string \<Rightarrow> ErrAsJson \<Rightarrow> Raw \<Rightarrow> js_err" where
  "jsonToErr stk errAsJson msg =
     (let info = stackInfo (msg_stack msg) (json_stack errAsJson) in
      case errAsJson of
        AjaxErrAsJson _ m d \<Rightarrow>
          \<lparr>cls = AjaxErr d, message = ''BrowserMsg('' @ msg_name msg @ '') '' @ m, stack = info\<rparr>
      | StandardErrAsJson _ m \<Rightarrow>
          \<lparr>cls = Error, message = ''BrowserMsg('' @ msg_name msg @ '') '' @ m, stack = stk @ info\<rparr>)"

text \<open>
  Modelled from the spec: the symmetric encryption of window messages
  (\<^verbatim>\<open>SymmetricMessageEncryption\<close>, declared outside the sources), with
  \<^verbatim>\<open>encrypt(envelope) -> ciphertextEnvelope\<close> and
  \<^verbatim>\<open>decrypt(ciphertextEnvelope) -> envelope\<close>, the envelope id being the nonce. The
  ciphertext envelope shows its id, its destination and the propagation flag, which the
  listener reads without decrypting.
\<close>

record SymEncryptedMessage =
  enc_uid :: string
  enc_to :: string
  enc_propagateToParent :: bool
  enc_data :: Raw

definition encrypt :: "Raw \<Rightarrow> SymEncryptedMessage" where
  "encrypt msg = \<lparr>enc_uid = msg_uid msg, enc_to = or_empty (msg_to msg),
                  enc_propagateToParent = msg_propagateToParent msg, enc_data = msg\<rparr>"

definition decrypt :: "SymEncryptedMessage \<Rightarrow> Raw" where
  "decrypt e = enc_data e"

text \<open>
  The window a context runs in: the chain \<^verbatim>\<open>window.parent\<close>, its parent, and so on up
  to the top window (empty in the top window, whose parent is itself), and the iframes of
  the document, each with the origin of its \<^verbatim>\<open>src\<close> (none when \<^verbatim>\<open>new URL\<close> throws) and
  its content window (which may be null).
\<close>

type_synonym win = nat

record iframe =
  src_origin :: "string option"
  contentWindow :: "win option"

record window_env =
  self_win :: win
  parent_line :: "win list"
  iframes :: "iframe list"
  extensionOrigin :: string
  isBackgroundPage :: bool

text \<open>A call of \<^verbatim>\<open>postMessage\<close>: the window posted to, the target origin, the message.\<close>

type_synonym post = "win \<times> string \<times> SymEncryptedMessage"

text \<open>
  A handler is an async function of the request; the model keeps how its promise
  settles.
\<close>

type_synonym handler = "jsv \<Rightarrow> js_err + jsv"

text \<open>
  The two registries are plain objects, so reading \<^verbatim>\<open>registry[name]\<close> finds the
  handler registered under the name and, when there is none, the member of that name the
  object inherits from \<^verbatim>\<open>Object.prototype\<close> (\<^verbatim>\<open>toString\<close>, \<^verbatim>\<open>constructor\<close>, ...).
  Such a member is no handler. The engine decides what calling it as a plain function
  on the request does; the model keeps the two outcomes the bus can observe: the error
  with which the promise chain of a listener ends when the member stands in for the
  handler (the call throws, or it returns a value that is no promise, so that
  \<^verbatim>\<open>handlerPromise.then\<close> throws), and how \<^verbatim>\<open>await member(bm)\<close> settles.
\<close>

record proto_member =
  as_handler :: "jsv \<Rightarrow> js_err"
  awaited :: "jsv \<Rightarrow> js_err + jsv"

datatype found = OwnHandler handler | Inherited proto_member

text \<open>
  The state of one context: the static fields of the class (the set of processed ids
  and the own properties of the two registries), the members of \<^verbatim>\<open>Object.prototype\<close>,
  the blob store, the window messages whose listener is suspended at
  \<^verbatim>\<open>await SymmetricMessageEncryption.decrypt\<close>, and what the context has done so far:
  the handlers it ran (name and request), the replies it gave on the direct channel, the
  requests it sent in reply to window messages (destination, name, result, handles;
  each is a call of \<^verbatim>\<open>sendRaw\<close> of its own, whose effects are not followed), and
  the window messages it posted when sending or forwarding.
\<close>

record ctx =
  processed :: "string set"
  HANDLERS_REGISTERED_BACKGROUND :: "string \<rightharpoonup> handler"
  HANDLERS_REGISTERED_FRAME :: "string \<rightharpoonup> handler"
  Object_prototype :: "string \<rightharpoonup> proto_member"
  store :: blob_store
  awaiting_decrypt :: "SymEncryptedMessage list"
  invoked :: "(string \<times> jsv) list"
  responded :: "RawResponse list"
  reply_requests :: "(string \<times> string \<times> jsv \<times> (string \<times> handle) list) list"
  posted :: "post list"

definition registry_get :: "ctx \<Rightarrow> (string \<rightharpoonup> handler) \<Rightarrow> string \<Rightarrow> found option" where
  \<comment> \<open>\<^verbatim>\<open>registry[name]\<close>; \<open>None\<close> is \<^verbatim>\<open>undefined\<close>\<close>
  "registry_get c registry name =
     (case registry name of
        Some h \<Rightarrow> Some (OwnHandler h)
      | None \<Rightarrow> map_option Inherited (Object_prototype c name))"

section \<open>BrowserMsg: the receiving side\<close>

definition sendRawResponse :: "rewrap \<Rightarrow> blob_store \<Rightarrow> js_err + jsv \<Rightarrow> RawResponse \<times> blob_store" where
  "sendRawResponse rewrapErr s handlerPromise =
     (case handlerPromise of
        Inr result \<Rightarrow>
          (case replaceBufWithObjUrlInplace s result of
             (objUrls, result', s') \<Rightarrow>
               (\<lparr>res_result = result', res_objUrls = objUrls, res_exception = None\<rparr>, s'))
      | Inl e \<Rightarrow>
          (\<lparr>res_result = JUndefined, res_objUrls = [], res_exception = Some (errToJson rewrapErr e)\<rparr>, s))"

text \<open>
  The promise chain shared by \<^verbatim>\<open>handleMsg\<close> and \<^verbatim>\<open>bgListen\<close>: decode the request,
  call what the registry gave on it, answer with the result; a failed decode or a failed
  handler is answered with the error. The handler runs only when the decode succeeded,
  and only a registered handler is recorded as run. The listener only starts the chain;
  the model runs the chain to its end at that point, which is how the chain runs when
  nothing else uses the blob store before it ends.
\<close>

definition dispatch ::
  "rewrap \<Rightarrow> found \<Rightarrow> Raw \<Rightarrow> (Raw \<Rightarrow> RawResponse \<Rightarrow> ctx \<Rightarrow> ctx) \<Rightarrow> ctx \<Rightarrow> ctx" where
  "dispatch rewrapErr handler msg rawRespond c =
     (case replaceObjUrlWithBuf (store c) (msg_bm msg) (msg_objUrls msg) of
        (Inr bm, s1) \<Rightarrow>
          (case handler of
             OwnHandler h \<Rightarrow>
               (case sendRawResponse rewrapErr s1 (h bm) of
                  (r, s2) \<Rightarrow> rawRespond msg r (c\<lparr>store := s2, invoked := invoked c @ [(msg_name msg, bm)]\<rparr>))
           | Inherited member \<Rightarrow>
               (case sendRawResponse rewrapErr s1 (Inl (as_handler member bm)) of
                  (r, s2) \<Rightarrow> rawRespond msg r (c\<lparr>store := s2\<rparr>)))
      | (Inl e, s1) \<Rightarrow>
          (case sendRawResponse rewrapErr s1 (Inl e) of
             (r, s2) \<Rightarrow> rawRespond msg r (c\<lparr>store := s2\<rparr>)))"

text \<open>
  \<^verbatim>\<open>handleMsg\<close> tests \<^verbatim>\<open>typeof HANDLERS_REGISTERED_FRAME[msg.name] !== 'undefined'\<close>,
  which also holds for an inherited member.
\<close>

definition handleMsg ::
  "rewrap \<Rightarrow> ctx \<Rightarrow> Raw \<Rightarrow> (Raw \<Rightarrow> RawResponse \<Rightarrow> ctx \<Rightarrow> ctx) \<Rightarrow> bool \<times> ctx" where
  "handleMsg rewrapErr c msg rawRespond =
     (if msg_uid msg \<notin> processed c then
        (let c1 = c\<lparr>processed := insert (msg_uid msg) (processed c)\<rparr> in
         case registry_get c1 (HANDLERS_REGISTERED_FRAME c1) (msg_name msg) of
           Some handler \<Rightarrow> (True, dispatch rewrapErr handler msg rawRespond c1)
         | None \<Rightarrow> (False, c1))
      else (False, c))"

text \<open>The reply callback of the direct channel: the reply is handed to the host.\<close>

definition direct_respond :: "Raw \<Rightarrow> RawResponse \<Rightarrow> ctx \<Rightarrow> ctx" where
  "direct_respond msg r c = c\<lparr>responded := responded c @ [r]\<rparr>"

text \<open>
  The reply callback of the window listener: when the message names a response and its
  request carries a \<^verbatim>\<open>messageSender\<close>, the result is sent as a new request.
\<close>

definition window_respond :: "Raw \<Rightarrow> RawResponse \<Rightarrow> ctx \<Rightarrow> ctx" where
  "window_respond msg r c =
     (case (msg_responseName msg, msg_bm msg) of
        (Some rn, JObj fs) \<Rightarrow>
          (if rn \<noteq> [] \<and> get_field fs ''messageSender'' \<noteq> JUndefined then
             c\<lparr>reply_requests := reply_requests c
                 @ [((case get_field fs ''messageSender'' of JStr d \<Rightarrow> d | _ \<Rightarrow> []), rn, res_result r, res_objUrls r)]\<rparr>
           else c)
      | _ \<Rightarrow> c)"

definition addressed_to :: "string \<Rightarrow> string \<Rightarrow> bool" where
  \<comment> \<open>\<^verbatim>\<open>[dest, 'broadcast'].includes(to)\<close>\<close>
  "addressed_to dest t = (t = dest \<or> t = ''broadcast'')"

text \<open>
  The listener \<^verbatim>\<open>listen(dest)\<close> installs on the direct channel; the boolean is what it
  returns to the host (true: a reply will follow).
\<close>

definition listen_onMessage :: "rewrap \<Rightarrow> string \<Rightarrow> ctx \<Rightarrow> Raw \<Rightarrow> bool \<times> ctx" where
  "listen_onMessage rewrapErr dest c msg =
     (if truthy_str (msg_to msg) \<and> addressed_to dest (or_empty (msg_to msg))
      then (True, snd (handleMsg rewrapErr c msg direct_respond))
      else (False, c))"

text \<open>
  The listener of \<^verbatim>\<open>bgListen\<close>, which the background page installs. It tests
  \<^verbatim>\<open>Object.keys(HANDLERS_REGISTERED_BACKGROUND).includes(msg.name)\<close>, which holds for
  registered names only.
\<close>

definition bgListen_onMessage :: "rewrap \<Rightarrow> ctx \<Rightarrow> Raw \<Rightarrow> bool \<times> ctx" where
  "bgListen_onMessage rewrapErr c msg =
     (case HANDLERS_REGISTERED_BACKGROUND c (msg_name msg) of
        Some h \<Rightarrow> (True, dispatch rewrapErr (OwnHandler h) msg direct_respond c)
      | None \<Rightarrow> (False, c))"

text \<open>
  \<^verbatim>\<open>sendUpParentLine\<close>: the variable \<^verbatim>\<open>w\<close> walks the parent chain, and every round of
  the loop posts to \<^verbatim>\<open>window.parent\<close>. The first argument of the loop is the part of
  the chain \<^verbatim>\<open>w\<close> has not reached yet, the second is \<^verbatim>\<open>window.parent\<close>.
\<close>

fun sendUpParentLine_loop :: "win list \<Rightarrow> win \<Rightarrow> SymEncryptedMessage \<Rightarrow> post list" where
  "sendUpParentLine_loop [] p m = []"
| "sendUpParentLine_loop (w # ws) p m = (p, ''*'', m) # sendUpParentLine_loop ws p m"

definition sendUpParentLine :: "window_env \<Rightarrow> SymEncryptedMessage \<Rightarrow> post list" where
  "sendUpParentLine env encryptedMsg =
     (let encryptedWithPropagationFlag = encryptedMsg\<lparr>enc_propagateToParent := True\<rparr> in
      case parent_line env of
        [] \<Rightarrow> []
      | p # _ \<Rightarrow> sendUpParentLine_loop (parent_line env) p encryptedWithPropagationFlag)"

definition sendToChildren :: "window_env \<Rightarrow> SymEncryptedMessage \<Rightarrow> post list" where
  "sendToChildren env encryptedMsg =
     concat (map (\<lambda>childFrame. case contentWindow childFrame of
                                  None \<Rightarrow> []
                                | Some w \<Rightarrow> [(w, extensionOrigin env, encryptedMsg)])
               (filter (\<lambda>f. src_origin f = Some (extensionOrigin env)) (iframes env)))"

definition trusted_origin :: "window_env \<Rightarrow> string \<Rightarrow> bool" where
  "trusted_origin env origin = (origin = ''https://mail.google.com'' \<or> origin = extensionOrigin env)"

text \<open>
  The listener \<^verbatim>\<open>listenForWindowMessages(dest)\<close> installs for window messages is an
  async function. A message from a trusted origin whose id is not processed and that is
  addressed to \<open>dest\<close> or to \<^verbatim>\<open>broadcast\<close> suspends the listener at
  \<^verbatim>\<open>await SymmetricMessageEncryption.decrypt\<close>; the rest of its body runs later, and
  other listeners may run in between. For any other message the listener runs to its end
  at once. The last statement of the body forwards a message that was not handled and
  carries the propagation flag.
\<close>

definition propagate_unhandled :: "window_env \<Rightarrow> SymEncryptedMessage \<Rightarrow> bool \<Rightarrow> ctx \<Rightarrow> ctx" where
  "propagate_unhandled env encryptedMsg handled c =
     (if \<not> handled \<and> enc_propagateToParent encryptedMsg
      then c\<lparr>processed := insert (enc_uid encryptedMsg) (processed c),
             posted := posted c @ sendUpParentLine env encryptedMsg\<rparr>
      else c)"

definition listenForWindowMessages ::
  "window_env \<Rightarrow> string \<Rightarrow> ctx \<Rightarrow> string \<Rightarrow> SymEncryptedMessage \<Rightarrow> ctx" where
  "listenForWindowMessages env dest c origin encryptedMsg =
     (if \<not> trusted_origin env origin then c
      else if enc_uid encryptedMsg \<in> processed c then c
      else if addressed_to dest (enc_to encryptedMsg)
      then c\<lparr>awaiting_decrypt := awaiting_decrypt c @ [encryptedMsg]\<rparr>
      else propagate_unhandled env encryptedMsg False c)"

text \<open>
  The listener resumes for a message it was suspended on: the promise of
  \<^verbatim>\<open>decrypt\<close> has resolved, \<^verbatim>\<open>handleMsg\<close> runs on the decrypted envelope, and the
  last statement of the body follows. For a message no listener is suspended on nothing
  happens.
\<close>

definition listenForWindowMessages_resumed ::
  "rewrap \<Rightarrow> window_env \<Rightarrow> ctx \<Rightarrow> SymEncryptedMessage \<Rightarrow> ctx" where
  "listenForWindowMessages_resumed rewrapErr env c encryptedMsg =
     (if encryptedMsg \<notin> set (awaiting_decrypt c) then c
      else
        (case handleMsg rewrapErr (c\<lparr>awaiting_decrypt := remove1 encryptedMsg (awaiting_decrypt c)\<rparr>)
                (decrypt encryptedMsg) window_respond of
           (handled, c1) \<Rightarrow> propagate_unhandled env encryptedMsg handled c1))"

section \<open>BrowserMsg: the sending side\<close>

text \<open>
  What the host hands to the reply callback of the direct channel: nothing, null, some
  other value that is not an object (kept as its \<^verbatim>\<open>String(r)\<close> text), or an object
  read as a \<^verbatim>\<open>RawResponse\<close>; and \<^verbatim>\<open>chrome.runtime.lastError\<close> at that moment, whose
  message may be missing.
\<close>

datatype raw_reply = RUndefined | RNull | RPrimitive string | RObject RawResponse

datatype last_error = NoLastError | LastError "string option"

definition String_of_reply :: "raw_reply \<Rightarrow> string" where
  "String_of_reply r = (case r of RUndefined \<Rightarrow> ''undefined'' | RNull \<Rightarrow> ''null'' | RPrimitive s \<Rightarrow> s
                          | RObject _ \<Rightarrow> ''[object Object]'')"

definition lastError_text :: "last_error \<Rightarrow> string" where
  "lastError_text le =
     (case le of
        NoLastError \<Rightarrow> ''(no lastError)''
      | LastError m \<Rightarrow> (if truthy_str m then or_empty m else ''(empty lastError)''))"

text \<open>
  \<^verbatim>\<open>processRawMsgResponse\<close>, the reply callback of \<^verbatim>\<open>sendRaw\<close>. \<open>stk\<close> is the stack
  the engine gives an error constructed here (the receive-side stack).
\<close>

definition processRawMsgResponse ::
  "string \<Rightarrow> bool \<Rightarrow> string option \<Rightarrow> Raw \<Rightarrow> last_error \<Rightarrow> blob_store \<Rightarrow> raw_reply \<Rightarrow>
     jsv promise \<times> blob_store" where
  "processRawMsgResponse stk awaitRes destString msg le s r =
     (if \<not> awaitRes then (Resolved JUndefined, s)
      else
        (case r of
           RObject rr \<Rightarrow>
             (case res_exception rr of
                Some ex \<Rightarrow> (Rejected (jsonToErr stk ex msg), s)
              | None \<Rightarrow>
                  (if \<not> truthy (res_result rr) \<or> \<not> typeof_object (res_result rr)
                   then (Resolved (res_result rr), s)
                   else
                     (case replaceObjUrlWithBuf s (res_result rr) (res_objUrls rr) of
                        (Inr v, s') \<Rightarrow> (Resolved v, s')
                      | (Inl e, s') \<Rightarrow> (Rejected e, s'))))
         | _ \<Rightarrow>
             (let lastError = lastError_text le;
                  e = (if destString = None \<and> r = RUndefined then
                         (if lastError = ''The object could not be cloned.'' then
                            \<lparr>cls = Error,
                             message = ''BrowserMsg.sendAwait('' @ msg_name msg @ '') failed with lastError: '' @ lastError,
                             stack = stk\<rparr>
                          else if lastError = ''Could not establish connection. Receiving end does not exist.''
                                  \<or> lastError = ''The message port closed before a response was received.'' then
                            \<lparr>cls = BgNotReadyErr,
                             message = ''BgNotReadyErr: BrowserMsg.sendAwait('' @ msg_name msg
                                         @ '') failed with lastError: '' @ lastError,
                             stack = stk\<rparr>
                          else
                            \<lparr>cls = Error,
                             message = ''BrowserMsg.sendAwait('' @ msg_name msg
                                         @ '') failed with unknown lastError: '' @ lastError,
                             stack = stk\<rparr>)
                       else
                         \<lparr>cls = Error,
                          message = ''BrowserMsg.sendAwait('' @ msg_name msg @ '') returned('' @ String_of_reply r
                                      @ '') with lastError: '' @ lastError,
                          stack = stk\<rparr>)
              in (Rejected (e\<lparr>stack := msg_stack msg @ nl @ nl @ stack e\<rparr>), s))))"

text \<open>
  What the host does with a send on the direct channel: \<^verbatim>\<open>chrome.runtime\<close> is
  missing, the send throws, or the send is accepted and the reply callback is called
  with the listed replies in turn (one for \<^verbatim>\<open>chrome.runtime.sendMessage\<close>, one for
  each active tab for \<^verbatim>\<open>chrome.tabs.sendMessage\<close>, none when nothing ever answers).
\<close>

datatype host = RuntimeMissing | SendThrew js_err | Delivered "raw_reply list" last_error

text \<open>
  A send promise resolves with a value, or, from the background page, with whatever the
  tab replied, undecoded.
\<close>

datatype resolved = Plain jsv | RawReply raw_reply

definition or_null :: "string option \<Rightarrow> string option" where
  \<comment> \<open>\<^verbatim>\<open>destString || null\<close>\<close>
  "or_null d = (if truthy_str d then d else None)"

text \<open>
  How the promise of \<^verbatim>\<open>sendRaw\<close> settles. Without \<^verbatim>\<open>chrome.runtime\<close> an error
  corner is rendered and the promise stays pending, as it does when the send throws
  because the extension context is invalidated; any other throw rejects it. From the
  background page the message goes to the active tabs with \<^verbatim>\<open>resolve\<close> itself as the
  reply callback; from any other context the reply callback is
  \<^verbatim>\<open>processRawMsgResponse\<close>. A promise settles once, with the first reply.
\<close>

definition sendRaw_promise ::
  "string \<Rightarrow> window_env \<Rightarrow> bool \<Rightarrow> string option \<Rightarrow> Raw \<Rightarrow> blob_store \<Rightarrow> host \<Rightarrow>
     resolved promise \<times> blob_store" where
  "sendRaw_promise stk env awaitRes destString msg s hst =
     (case hst of
        RuntimeMissing \<Rightarrow> (Pending, s)
      | SendThrew e \<Rightarrow> (if message e = ''Extension context invalidated.'' then (Pending, s) else (Rejected e, s))
      | Delivered rs le \<Rightarrow>
          (case rs of
             [] \<Rightarrow> (Pending, s)
           | r # _ \<Rightarrow>
               (if isBackgroundPage env then (Resolved (RawReply r), s)
                else (case processRawMsgResponse stk awaitRes destString msg le s r of
                        (p, s') \<Rightarrow> (map_promise Plain p, s')))))"

text \<open>
  \<^verbatim>\<open>sendRaw\<close>. \<open>uid\<close> is the value of \<^verbatim>\<open>generateIV()\<close>, \<open>stackTrace\<close> that of
  \<^verbatim>\<open>Catch.stackTrace()\<close>; \<open>chrome\<close> is the host: given the message and the blob store at
  the time of the send it says what happens, and what the store is when the reply
  callback runs. The window posts are appended to the context's record of them.
\<close>

definition sendRaw_window :: "window_env \<Rightarrow> Raw \<Rightarrow> post list" where
  "sendRaw_window env msg =
     (if \<not> isBackgroundPage env \<and> msg_to msg \<noteq> None then
        (let encryptedMsg = encrypt msg in
         sendToChildren env encryptedMsg @ [(self_win env, ''*'', encryptedMsg)]
           @ sendUpParentLine env encryptedMsg)
      else [])"

definition sendRaw ::
  "string \<Rightarrow> window_env \<Rightarrow> (Raw \<Rightarrow> blob_store \<Rightarrow> host \<times> blob_store) \<Rightarrow> string \<Rightarrow> string \<Rightarrow>
     ctx \<Rightarrow> string option \<Rightarrow> string \<Rightarrow> jsv \<Rightarrow> (string \<times> handle) list \<Rightarrow> bool \<Rightarrow> resolved promise \<times> ctx" where
  "sendRaw stk env chrome uid stackTrace c destString name bm objUrls awaitRes =
     (let msg = \<lparr>msg_name = name, msg_bm = bm, msg_objUrls = objUrls, msg_to = or_null destString,
                 msg_uid = uid, msg_stack = stackTrace, msg_responseName = None,
                 msg_propagateToParent = False\<rparr>
      in case chrome msg (store c) of
           (hst, s1) \<Rightarrow>
             (case sendRaw_promise stk env awaitRes destString msg s1 hst of
                (p, s2) \<Rightarrow> (p, c\<lparr>store := s2, posted := posted c @ sendRaw_window env msg\<rparr>)))"

text \<open>
  \<^verbatim>\<open>sendAwait\<close>. From the background page with no destination
  \<^verbatim>\<open>HANDLERS_REGISTERED_BACKGROUND[name]\<close> is called directly and awaited. When the
  name is neither registered nor inherited, the call of \<^verbatim>\<open>undefined\<close> throws a
  \<^verbatim>\<open>TypeError\<close> inside the async function, which rejects its promise (\<open>stk\<close> is the
  stack the engine gives that error).
\<close>

definition sendAwait ::
  "string \<Rightarrow> window_env \<Rightarrow> (Raw \<Rightarrow> blob_store \<Rightarrow> host \<times> blob_store) \<Rightarrow> string \<Rightarrow> string \<Rightarrow>
     ctx \<Rightarrow> string option \<Rightarrow> string \<Rightarrow> jsv option \<Rightarrow> bool \<Rightarrow> resolved promise \<times> ctx" where
  "sendAwait stk env chrome uid stackTrace c destString name bm0 awaitRes =
     (let bm = (case bm0 of None \<Rightarrow> JObj [] | Some b \<Rightarrow> if truthy b then b else JObj []) in
      if isBackgroundPage env \<and> destString = None then
        (case registry_get c (HANDLERS_REGISTERED_BACKGROUND c) name of
           None \<Rightarrow> (Rejected \<lparr>cls = TypeError, message = ''handler is not a function'', stack = stk\<rparr>, c)
         | Some (OwnHandler h) \<Rightarrow>
             ((case h bm of Inr v \<Rightarrow> Resolved (Plain v) | Inl e \<Rightarrow> Rejected e),
              c\<lparr>invoked := invoked c @ [(name, bm)]\<rparr>)
         | Some (Inherited member) \<Rightarrow>
             ((case awaited member bm of Inr v \<Rightarrow> Resolved (Plain v) | Inl e \<Rightarrow> Rejected e), c))
      else
        (case replaceBufWithObjUrlInplace (store c) bm of
           (objUrls, bm', s1) \<Rightarrow>
             sendRaw stk env chrome uid stackTrace (c\<lparr>store := s1\<rparr>) destString name bm' objUrls awaitRes))"


section \<open>The direct channel to the background page\<close>

text \<open>
  This section is a model of the platform, not code of the repository: the channel
  \<^verbatim>\<open>chrome.runtime.sendMessage\<close> / \<^verbatim>\<open>chrome.runtime.onMessage\<close> between a caller and
  the background page, whose listener is the only one that may answer. It is assembled
  from what the sources say of the platform. A message crosses the channel as a copy
  (\<^verbatim>\<open>sendAwait\<close>: the message has to be serializable); what the copy of a payload is
  depends on the platform and is the parameter \<open>clone\<close>, which gives no copy for a
  payload the platform cannot clone. An undefined result needs no copy. A request that
  cannot be cloned never reaches the listener: the reply callback receives
  \<^verbatim>\<open>undefined\<close> and \<^verbatim>\<open>chrome.runtime.lastError\<close> is
  \<^verbatim>\<open>The object could not be cloned.\<close> (\<^verbatim>\<open>processRawMsgResponse\<close> and
  \<^verbatim>\<open>Api.getAjaxProgressXhrFactory\<close> expect this). Otherwise the copy is handed to the
  listener of \<^verbatim>\<open>bgListen\<close>. When the listener returns true, the reply callback of the
  caller receives a copy of what the listener passed to \<^verbatim>\<open>rawRespond\<close>. When the
  listener returns false, or when its reply cannot be cloned (\<^verbatim>\<open>rawRespond\<close> throws
  and \<^verbatim>\<open>respondIfPageStillOpen\<close> reports it), the callback receives \<^verbatim>\<open>undefined\<close>
  and \<^verbatim>\<open>chrome.runtime.lastError\<close> is \<open>le\<close>. The blob store is the browser's and is
  shared by the two contexts.
\<close>

definition clone_result :: "(jsv \<Rightarrow> jsv option) \<Rightarrow> RawResponse \<Rightarrow> RawResponse option" where
  "clone_result clone r =
     (if res_result r = JUndefined then Some r
      else map_option (\<lambda>v. r\<lparr>res_result := v\<rparr>) (clone (res_result r)))"

definition direct_channel_to_bg ::
  "rewrap \<Rightarrow> (jsv \<Rightarrow> jsv option) \<Rightarrow> ctx \<Rightarrow> last_error \<Rightarrow> Raw \<Rightarrow> blob_store \<Rightarrow> host \<times> blob_store" where
  "direct_channel_to_bg rewrapErr clone bg le msg s =
     (case clone (msg_bm msg) of
        None \<Rightarrow> (Delivered [RUndefined] (LastError (Some ''The object could not be cloned.'')), s)
      | Some bm \<Rightarrow>
          (case bgListen_onMessage rewrapErr (bg\<lparr>store := s\<rparr>) (msg\<lparr>msg_bm := bm\<rparr>) of
             (True, bg') \<Rightarrow>
               (case drop (length (responded bg)) (responded bg') of
                  [] \<Rightarrow> (Delivered [] NoLastError, store bg')
                | r # _ \<Rightarrow>
                    (case clone_result clone r of
                       Some r' \<Rightarrow> (Delivered [RObject r'] NoLastError, store bg')
                     | None \<Rightarrow> (Delivered [RUndefined] le, store bg')))
           | (False, bg') \<Rightarrow> (Delivered [RUndefined] le, s)))"

text \<open>
  The platform carries a value when the copy it makes of it is the value itself; an
  undefined value is carried by every platform.
\<close>

definition carries :: "(jsv \<Rightarrow> jsv option) \<Rightarrow> jsv \<Rightarrow> bool" where
  "carries clone v = (v = JUndefined \<or> clone v = Some v)"

text \<open>An object is well formed when no property name occurs twice.\<close>

definition wf_object :: "jsv \<Rightarrow> bool" where
  "wf_object v = (case v of JObj fs \<Rightarrow> distinct (map fst fs) | _ \<Rightarrow> True)"

section \<open>Schedules of one context\<close>

text \<open>
  What happens in a context that listens with \<^verbatim>\<open>listen(dest)\<close>, one event at a time: a
  message arrives on the direct channel, a window message arrives from some origin, or
  the window listener resumes for a message it was suspended on. The events of a
  schedule run in the order of the list; every interleaving of arrivals and resumptions
  is a schedule.
\<close>

datatype event = Direct Raw | Window string SymEncryptedMessage | Resumed SymEncryptedMessage

definition occur :: "rewrap \<Rightarrow> window_env \<Rightarrow> string \<Rightarrow> ctx \<Rightarrow> event \<Rightarrow> ctx" where
  "occur rewrapErr env dest c ev =
     (case ev of
        Direct msg \<Rightarrow> snd (listen_onMessage rewrapErr dest c msg)
      | Window origin encryptedMsg \<Rightarrow> listenForWindowMessages env dest c origin encryptedMsg
      | Resumed encryptedMsg \<Rightarrow> listenForWindowMessages_resumed rewrapErr env c encryptedMsg)"

definition run_schedule :: "rewrap \<Rightarrow> window_env \<Rightarrow> string \<Rightarrow> ctx \<Rightarrow> event list \<Rightarrow> ctx" where
  "run_schedule rewrapErr env dest c evs = foldl (occur rewrapErr env dest) c evs"





section \<open>The encoded form of an object, for the proofs\<close>

text \<open>
  What the encoding loop computes, written as recursions over the properties of the
  object: the properties after the loop, the handles recorded when the next free
  handle is \<open>n\<close>, and the store after the loop.
\<close>

definition enc_fields :: "(string \<times> jsv) list \<Rightarrow> (string \<times> jsv) list" where
  "enc_fields fs = map (\<lambda>(k, v). (k, if is_Uint8Array v then JUndefined else v)) fs"

fun enc_urls :: "nat \<Rightarrow> (string \<times> jsv) list \<Rightarrow> (string \<times> handle) list" where
  "enc_urls n [] = []"
| "enc_urls n ((k, v) # r) = (case v of JBuf b \<Rightarrow> (k, n) # enc_urls (Suc n) r | _ \<Rightarrow> enc_urls n r)"

fun enc_store :: "blob_store \<Rightarrow> (string \<times> jsv) list \<Rightarrow> blob_store" where
  "enc_store s [] = s"
| "enc_store s ((k, v) # r) = (case v of JBuf b \<Rightarrow> enc_store (snd (objUrlCreate s b)) r | _ \<Rightarrow> enc_store s r)"

text \<open>The encoded form of any value: only an object is changed by the encoding.\<close>

definition enc_value :: "jsv \<Rightarrow> jsv" where
  "enc_value v = (case v of JObj fs \<Rightarrow> JObj (enc_fields fs) | _ \<Rightarrow> v)"

section \<open>Concrete scenarios\<close>

text \<open>
  Concrete data for the bus: an empty blob store, a request \<^verbatim>\<open>ping\<close> to the background
  page, a network failure with status 404, and a stand-in for \<^verbatim>\<open>Catch.rewrapErr\<close> that
  prefixes the message.
\<close>

definition demo_store :: blob_store where
  "demo_store = \<lparr>next_handle = 0, blobs = Map.empty,
                 on_invalid = (\<lambda>_. \<lparr>cls = Error, message = ''blob gone'', stack = []\<rparr>)\<rparr>"

definition demo_msg :: Raw where
  "demo_msg = \<lparr>msg_name = ''ping'', msg_bm = JObj [], msg_objUrls = [], msg_to = None, msg_uid = ''u1'',
               msg_stack = ''at caller'', msg_responseName = None, msg_propagateToParent = False\<rparr>"

definition demo_404 :: js_err where
  "demo_404 = \<lparr>cls = AjaxErr \<lparr>status = 404, url = ''https://example.com/x'', responseText = ''not found'',
                            statusText = ''Not Found'', resMsg = None, resDetails = None\<rparr>,
               message = ''404 when GET-ing https://example.com/x'', stack = ''at responder''\<rparr>"

definition demo_rewrap :: rewrap where
  "demo_rewrap e m = \<lparr>cls = Error, message = m @ ''::'' @ message e, stack = stack e\<rparr>"

text \<open>
  The member \<^verbatim>\<open>toString\<close> of \<^verbatim>\<open>Object.prototype\<close>: called as a plain function it
  returns the string \<^verbatim>\<open>[object Undefined]\<close>, which is no promise. A context with a
  handler \<^verbatim>\<open>ping\<close> in both registries, and a frame three levels
  below the top window: its parent is window 2, then window 1, then the top window 0; it
  has one child frame of the extension (window 5) and one foreign child frame.
\<close>

definition demo_toString :: proto_member where
  "demo_toString =
     \<lparr>as_handler = (\<lambda>_. \<lparr>cls = TypeError, message = ''handlerPromise.then is not a function'', stack = []\<rparr>),
      awaited = (\<lambda>_. Inr (JStr ''[object Undefined]''))\<rparr>"

definition demo_ctx :: ctx where
  "demo_ctx =
     \<lparr>processed = {},
      HANDLERS_REGISTERED_BACKGROUND = [''ping'' \<mapsto> (\<lambda>_. Inr (JObj [(''pong'', JBool True)]))],
      HANDLERS_REGISTERED_FRAME = [''ping'' \<mapsto> (\<lambda>_. Inr (JObj [(''pong'', JBool True)]))],
      Object_prototype = [''toString'' \<mapsto> demo_toString],
      store = demo_store, awaiting_decrypt = [], invoked = [], responded = [], reply_requests = [],
      posted = []\<rparr>"

definition demo_env :: window_env where
  "demo_env =
     \<lparr>self_win = 3, parent_line = [2, 1, 0],
      iframes = [\<lparr>src_origin = Some ''chrome-extension://abc'', contentWindow = Some 5\<rparr>,
                 \<lparr>src_origin = Some ''https://ads.example'', contentWindow = Some 6\<rparr>],
      extensionOrigin = ''chrome-extension://abc'', isBackgroundPage = False\<rparr>"

definition demo_broadcast :: Raw where
  "demo_broadcast = demo_msg\<lparr>msg_to := Some ''broadcast''\<rparr>"

text \<open>A window message for another context, with the propagation flag.\<close>

definition demo_forward :: SymEncryptedMessage where
  "demo_forward = (encrypt (demo_msg\<lparr>msg_to := Some ''tab9''\<rparr>))\<lparr>enc_propagateToParent := True\<rparr>"

text \<open>
  Three more flagged window messages for the context \<^verbatim>\<open>tab1\<close>: one under the name
  \<^verbatim>\<open>toString\<close>, one under a name that is neither registered nor inherited, and a
  copy of the broadcast.
\<close>

definition demo_inherited :: SymEncryptedMessage where
  "demo_inherited =
     (encrypt (demo_msg\<lparr>msg_name := ''toString'', msg_to := Some ''tab1'', msg_uid := ''u2''\<rparr>))
       \<lparr>enc_propagateToParent := True\<rparr>"

definition demo_unknown :: SymEncryptedMessage where
  "demo_unknown =
     (encrypt (demo_msg\<lparr>msg_name := ''nope'', msg_to := Some ''tab1'', msg_uid := ''u3''\<rparr>))
       \<lparr>enc_propagateToParent := True\<rparr>"

definition demo_overlap :: SymEncryptedMessage where
  "demo_overlap = (encrypt demo_broadcast)\<lparr>enc_propagateToParent := True\<rparr>"

text \<open>
  The background page's window, a tab's window, and a background context whose handler
  \<^verbatim>\<open>db\<close> fails with the network failure above and whose handler \<^verbatim>\<open>echo\<close> returns its
  request.
\<close>

definition demo_bg_env :: window_env where
  "demo_bg_env = \<lparr>self_win = 0, parent_line = [], iframes = [],
                   extensionOrigin = ''chrome-extension://abc'', isBackgroundPage = True\<rparr>"

definition demo_tab_env :: window_env where
  "demo_tab_env = \<lparr>self_win = 0, parent_line = [], iframes = [],
                    extensionOrigin = ''chrome-extension://abc'', isBackgroundPage = False\<rparr>"

definition demo_bg_ctx :: ctx where
  "demo_bg_ctx = demo_ctx\<lparr>HANDLERS_REGISTERED_BACKGROUND :=
                    [''ping'' \<mapsto> (\<lambda>_. Inr (JObj [(''pong'', JBool True)])), ''db'' \<mapsto> (\<lambda>_. Inl demo_404),
                     ''echo'' \<mapsto> (\<lambda>bm. Inr bm)]\<rparr>"

definition demo_port_closed :: last_error where
  "demo_port_closed = LastError (Some ''The message port closed before a response was received.'')"

text \<open>
  Two platforms for the direct channel. The first copies every value as it is. The
  second serialises a message as JSON: a property whose value is undefined is dropped,
  and a byte buffer arrives as the object of its bytes, each under its index in decimal.
  The payload \<open>demo_nested\<close> holds a byte buffer below its top level, where
  \<^verbatim>\<open>replaceBufWithObjUrlInplace\<close> does not look.
\<close>

definition faithful_clone :: "jsv \<Rightarrow> jsv option" where
  "faithful_clone v = Some v"

fun decimal :: "nat \<Rightarrow> string" where
  "decimal n = (if n < 10 then [''0123456789'' ! n]
                else decimal (n div 10) @ [''0123456789'' ! (n mod 10)])"

declare decimal.simps [simp del]

primrec json_copy :: "jsv \<Rightarrow> jsv" where
  "json_copy JUndefined = JUndefined"
| "json_copy JNull = JNull"
| "json_copy (JBool b) = JBool b"
| "json_copy (JNum n) = JNum n"
| "json_copy (JStr s) = JStr s"
| "json_copy (JBuf b) = JObj (map (\<lambda>(i, x). (decimal i, JNum (uint x))) (enumerate 0 b))"
| "json_copy (JObj fs) = JObj (filter (\<lambda>p. snd p \<noteq> JUndefined) (map (map_prod id json_copy) fs))"

definition json_clone :: "jsv \<Rightarrow> jsv option" where
  "json_clone v = Some (json_copy v)"

definition demo_nested :: jsv where
  "demo_nested = JObj [(''file'', JObj [(''bytes'', JBuf [1, 2])])]"

section \<open>Properties of Api\<close>

lemma guard_throws:
  "str_includes u ''../'' \<or> str_includes u ''/..'' \<Longrightarrow>
   throwIfApiPathTraversalAttempted stk u =
     Inl \<lparr>cls = Error, message = ''API path traversal forbidden: '' @ u, stack = stk\<rparr>"
  by (simp add: throwIfApiPathTraversalAttempted_def)

lemma guard_passes:
  "\<not> str_includes u ''../'' \<Longrightarrow> \<not> str_includes u ''/..'' \<Longrightarrow>
   throwIfApiPathTraversalAttempted stk u = Inr ()"
  by (simp add: throwIfApiPathTraversalAttempted_def)

text \<open>
  Claim C10. For every URL that contains \<^verbatim>\<open>../\<close> or \<^verbatim>\<open>/..\<close>,
  \<^verbatim>\<open>Api.download\<close>, and \<^verbatim>\<open>Api.ajax\<close> outside a content script, reject with the
  path-traversal error and issue no network request; for every URL that contains neither,
  the guard does not throw.
\<close>

theorem C10_path_traversal_guard:
  "(str_includes u ''../'' \<or> str_includes u ''/..'' \<longrightarrow>
      download stk fromXhr st net u =
        (Rejected \<lparr>cls = Error, message = ''API path traversal forbidden: '' @ u, stack = stk\<rparr>, [])
      \<and> ajax False viaBg stk fromXhr jq (req\<lparr>req_url := Some u\<rparr>) sa =
        (Rejected \<lparr>cls = Error, message = ''API path traversal forbidden: '' @ u, stack = stk\<rparr>, []))
   \<and> (\<not> str_includes u ''../'' \<and> \<not> str_includes u ''/..'' \<longrightarrow>
      throwIfApiPathTraversalAttempted stk u = Inr ())"
proof (intro conjI impI)
  assume bad: "str_includes u ''../'' \<or> str_includes u ''/..''"
  show "download stk fromXhr st net u =
        (Rejected \<lparr>cls = Error, message = ''API path traversal forbidden: '' @ u, stack = stk\<rparr>, [])"
    by (simp add: download_def guard_throws [OF bad])
  show "ajax False viaBg stk fromXhr jq (req\<lparr>req_url := Some u\<rparr>) sa =
        (Rejected \<lparr>cls = Error, message = ''API path traversal forbidden: '' @ u, stack = stk\<rparr>, [])"
    by (simp add: ajax_def or_empty_def guard_throws [OF bad])
next
  assume "\<not> str_includes u ''../'' \<and> \<not> str_includes u ''/..''"
  then show "throwIfApiPathTraversalAttempted stk u = Inr ()"
    by (simp add: guard_passes)
qed

theorem C10_path_traversal_guard_witness:
  "str_includes ''/a/../b'' ''../''
   \<and> download [] (\<lambda>_ _ _ _ _ _. \<lparr>cls = Error, message = [], stack = []\<rparr>) [] (\<lambda>_. OnError None) ''/a/../b''
       = (Rejected \<lparr>cls = Error, message = ''API path traversal forbidden: /a/../b'', stack = []\<rparr>, [])
   \<and> ajax False (\<lambda>_. Pending) [] (\<lambda>_ _ _ _ _ _. \<lparr>cls = Error, message = [], stack = []\<rparr>)
         (\<lambda>_. JqDone () ()) \<lparr>req_url = Some ''/a/../b'', req_method = ''GET'', req_dataType = None\<rparr> []
       = (Rejected \<lparr>cls = Error, message = ''API path traversal forbidden: /a/../b'', stack = []\<rparr>, [])
   \<and> \<not> str_includes ''https://google.com'' ''../'' \<and> \<not> str_includes ''https://google.com'' ''/..''
   \<and> throwIfApiPathTraversalAttempted [] ''https://google.com'' = Inr ()"
  using C10_path_traversal_guard [of "''/a/../b''" "[]" "\<lambda>_ _ _ _ _ _. \<lparr>cls = Error, message = [], stack = []\<rparr>" "[]"
      "\<lambda>_. OnError None" "\<lambda>_. Pending" "\<lambda>_. JqDone () ()" "\<lparr>req_url = None, req_method = ''GET'', req_dataType = None\<rparr>" "[]"]
    C10_path_traversal_guard [of "''https://google.com''" "[]"]
  by (simp add: str_includes_def sublist_code)

section \<open>Properties of GoogleOAuth\<close>

lemma getAuthRes_catch_shape:
  "(auth_result (getAuthRes_catch a e) = ResDenied \<or> auth_result (getAuthRes_catch a e) = ResError)
   \<and> auth_error (getAuthRes_catch a e) \<noteq> None"
  by (simp add: getAuthRes_catch_def denied_def errored_def split: oauth_thrown.splits)

lemma getAuthRes_shape:
  "(auth_result (getAuthRes env a sv rs es w) = ResSuccess
      \<and> truthy_str (auth_acctEmail (getAuthRes env a sv rs es w)))
   \<or> ((auth_result (getAuthRes env a sv rs es w) = ResDenied
        \<or> auth_result (getAuthRes env a sv rs es w) = ResError)
      \<and> auth_error (getAuthRes env a sv rs es w) \<noteq> None)"
  using getAuthRes_catch_shape
  by (simp add: getAuthRes_def denied_def errored_def split: sum.splits prod.splits)

lemma newAuthPopup_return_shape:
  assumes "(auth_result a = ResSuccess \<and> truthy_str (auth_acctEmail a))
     \<or> ((auth_result a = ResDenied \<or> auth_result a = ResError) \<and> auth_error a \<noteq> None)"
  shows "(auth_result (newAuthPopup_return env a) = ResSuccess
            \<and> truthy_str (auth_acctEmail (newAuthPopup_return env a))
            \<and> truthy_str (auth_id_token (newAuthPopup_return env a)))
     \<or> ((auth_result (newAuthPopup_return env a) = ResDenied
            \<or> auth_result (newAuthPopup_return env a) = ResError)
          \<and> auth_error (newAuthPopup_return env a) \<noteq> None)"
  using assms
  by (auto simp: newAuthPopup_return_def errored_def split: option.splits prod.splits)

lemma newAuthPopup_downgrade:
  "auth_result a = ResSuccess \<Longrightarrow> \<not> truthy_str (auth_id_token a) \<or> \<not> truthy_str (auth_acctEmail a) \<Longrightarrow>
   auth_result (newAuthPopup_return env a) = ResError"
  by (auto simp: newAuthPopup_return_def errored_def)

text \<open>
  Claim C9. Every value \<^verbatim>\<open>GoogleOAuth.newAuthPopup\<close> returns is tagged: a result tagged
  Success carries a non-empty account email and a non-empty identity token, a result
  tagged Denied or Error carries an error reason string, and no other tag is returned.
  A grant that \<^verbatim>\<open>getAuthRes\<close> reports as Success with the identity token or the email
  missing leaves \<^verbatim>\<open>newAuthPopup\<close> tagged Error.
\<close>

theorem C9_auth_result:
  "(newAuthPopup env acctEmail scopes save = Inr r \<longrightarrow>
      (auth_result r = ResSuccess \<longrightarrow> truthy_str (auth_acctEmail r) \<and> truthy_str (auth_id_token r))
    \<and> (auth_result r = ResDenied \<or> auth_result r = ResError \<longrightarrow> (\<exists>m. auth_error r = Some m))
    \<and> auth_result r \<noteq> ResClosed)
   \<and> (auth_result a = ResSuccess \<and> (\<not> truthy_str (auth_id_token a) \<or> \<not> truthy_str (auth_acctEmail a)) \<longrightarrow>
        auth_result (newAuthPopup_return env a) = ResError)"
proof (intro conjI impI)
  assume ret: "newAuthPopup env acctEmail scopes save = Inr r"
  then obtain a0 sv rs es w where r: "r = newAuthPopup_return env (getAuthRes env a0 sv rs es w)"
    by (auto simp: newAuthPopup_def Let_def split: sum.splits if_splits option.splits)
  have shape: "(auth_result r = ResSuccess \<and> truthy_str (auth_acctEmail r) \<and> truthy_str (auth_id_token r))
     \<or> ((auth_result r = ResDenied \<or> auth_result r = ResError) \<and> auth_error r \<noteq> None)"
    unfolding r by (rule newAuthPopup_return_shape [OF getAuthRes_shape])
  { assume "auth_result r = ResSuccess"
    with shape show "truthy_str (auth_acctEmail r)" by auto
  next
    assume "auth_result r = ResSuccess"
    with shape show "truthy_str (auth_id_token r)" by auto
  next
    assume "auth_result r = ResDenied \<or> auth_result r = ResError"
    with shape show "\<exists>m. auth_error r = Some m" by auto
  next
    from shape show "auth_result r \<noteq> ResClosed" by auto
  }
next
  assume "auth_result a = ResSuccess \<and> (\<not> truthy_str (auth_id_token a) \<or> \<not> truthy_str (auth_acctEmail a))"
  then show "auth_result (newAuthPopup_return env a) = ResError"
    using newAuthPopup_downgrade by blast
qed

theorem C9_auth_result_witness:
  "newAuthPopup demo_oauth_env (Some ''User@Example.com'') None None
       = Inr \<lparr>auth_result = ResSuccess, auth_acctEmail = Some ''user@example.com'', auth_error = None,
              auth_id_token = Some ''idt''\<rparr>
   \<and> truthy_str (Some ''user@example.com'') \<and> truthy_str (Some ''idt'')
   \<and> auth_result (newAuthPopup_return demo_oauth_env
        \<lparr>auth_result = ResSuccess, auth_acctEmail = Some ''user@example.com'', auth_error = None,
         auth_id_token = None\<rparr>) = ResError"
proof -
  have run: "newAuthPopup demo_oauth_env (Some ''User@Example.com'') None None
       = Inr \<lparr>auth_result = ResSuccess, auth_acctEmail = Some ''user@example.com'', auth_error = None,
              auth_id_token = Some ''idt''\<rparr>"
    by (simp add: newAuthPopup_def demo_oauth_env_def ascii_lower_def Let_def truthy_str_def defaultScopes_def
        apiGoogleAuthPopupPrepareAuthReqScopes_def push_missing_def newAuthRequest_def apiGoogleAuthCodeUrl_def
        getAuthRes_def or_empty_def scopesToCheck_def str_includes_def sublist_code retrieveAndSaveAuthToken_def
        newAuthPopup_return_def OAUTH_state_header_def
        scope_email_def scope_openid_def scope_profile_def scope_compose_def scope_modify_def
        scope_readContacts_def scope_readOtherContacts_def)
  show ?thesis
    using C9_auth_result [of demo_oauth_env "Some ''User@Example.com''" None None
        "\<lparr>auth_result = ResSuccess, auth_acctEmail = Some ''user@example.com'', auth_error = None,
                auth_id_token = Some ''idt''\<rparr>"
        "\<lparr>auth_result = ResSuccess, auth_acctEmail = Some ''user@example.com'', auth_error = None,
           auth_id_token = None\<rparr>"] run
    by (simp add: truthy_str_def)
qed

section \<open>Properties of the error marshaller and the response correlator\<close>

lemma stackInfo_layout:
  "stackInfo callerStack (Some responderStack) =
     nl @ nl @ ''[callerStack]'' @ nl @ callerStack @ nl @ ''[/callerStack]'' @ nl @ nl
       @ ''[responderStack]'' @ nl @ responderStack @ nl @ ''[/responderStack]'' @ nl"
  by (simp add: stackInfo_def tpl_def)

lemma marshalled_failure_reaches_jsonToErr:
  "processRawMsgResponse stk True destString msg le s (RObject (fst (sendRawResponse rewrapErr s0 (Inl e))))
     = (Rejected (jsonToErr stk (errToJson rewrapErr e) msg), s)"
  by (simp add: processRawMsgResponse_def sendRawResponse_def)

text \<open>
  Claim C6. A handler failure is marshalled by \<^verbatim>\<open>errToJson\<close>, sent as the exception of
  the reply and reconstructed by \<^verbatim>\<open>jsonToErr\<close>, with which the awaited call rejects. The
  message of the reconstruction is \<^verbatim>\<open>BrowserMsg(name)\<close>, a space and the remote message;
  its stack holds the caller's send-time stack and the responder's stack between their
  markers. An \<^verbatim>\<open>AjaxErr\<close> is reconstructed as an \<^verbatim>\<open>AjaxErr\<close> with the same details
  (status, url, responseText, statusText and the two optional texts) and the remote
  message is its own message; any other failure is reconstructed as a plain
  \<^verbatim>\<open>Error\<close> from what \<^verbatim>\<open>Catch.rewrapErr\<close> made of it.
\<close>

theorem C6_error_marshalling:
  "processRawMsgResponse stk True destString msg le s (RObject (fst (sendRawResponse rewrapErr s0 (Inl e))))
     = (Rejected (jsonToErr stk (errToJson rewrapErr e) msg), s)
   \<and> (cls e = AjaxErr d \<longrightarrow>
        jsonToErr stk (errToJson rewrapErr e) msg =
          \<lparr>cls = AjaxErr d,
           message = ''BrowserMsg('' @ msg_name msg @ '') '' @ message e,
           stack = nl @ nl @ ''[callerStack]'' @ nl @ msg_stack msg @ nl @ ''[/callerStack]'' @ nl @ nl
                     @ ''[responderStack]'' @ nl @ stack e @ nl @ ''[/responderStack]'' @ nl\<rparr>)
   \<and> ((\<forall>d. cls e \<noteq> AjaxErr d) \<longrightarrow>
        jsonToErr stk (errToJson rewrapErr e) msg =
          \<lparr>cls = Error,
           message = ''BrowserMsg('' @ msg_name msg @ '') '' @ message (rewrapErr e ''sendRawResponse''),
           stack = stk @ nl @ nl @ ''[callerStack]'' @ nl @ msg_stack msg @ nl @ ''[/callerStack]'' @ nl @ nl
                     @ ''[responderStack]'' @ nl @ stack (rewrapErr e ''sendRawResponse'') @ nl
                     @ ''[/responderStack]'' @ nl\<rparr>)"
proof (intro conjI impI)
  show "processRawMsgResponse stk True destString msg le s (RObject (fst (sendRawResponse rewrapErr s0 (Inl e))))
     = (Rejected (jsonToErr stk (errToJson rewrapErr e) msg), s)"
    by (rule marshalled_failure_reaches_jsonToErr)
next
  assume "cls e = AjaxErr d"
  then show "jsonToErr stk (errToJson rewrapErr e) msg =
          \<lparr>cls = AjaxErr d,
           message = ''BrowserMsg('' @ msg_name msg @ '') '' @ message e,
           stack = nl @ nl @ ''[callerStack]'' @ nl @ msg_stack msg @ nl @ ''[/callerStack]'' @ nl @ nl
                     @ ''[responderStack]'' @ nl @ stack e @ nl @ ''[/responderStack]'' @ nl\<rparr>"
    by (simp add: jsonToErr_def errToJson_def json_stack_def stackInfo_layout Let_def)
next
  assume other: "\<forall>d. cls e \<noteq> AjaxErr d"
  then have "errToJson rewrapErr e =
      StandardErrAsJson (Some (stack (rewrapErr e ''sendRawResponse''))) (message (rewrapErr e ''sendRawResponse''))"
    by (cases "cls e") (simp_all add: errToJson_def Let_def)
  then show "jsonToErr stk (errToJson rewrapErr e) msg =
          \<lparr>cls = Error,
           message = ''BrowserMsg('' @ msg_name msg @ '') '' @ message (rewrapErr e ''sendRawResponse''),
           stack = stk @ nl @ nl @ ''[callerStack]'' @ nl @ msg_stack msg @ nl @ ''[/callerStack]'' @ nl @ nl
                     @ ''[responderStack]'' @ nl @ stack (rewrapErr e ''sendRawResponse'') @ nl
                     @ ''[/responderStack]'' @ nl\<rparr>"
    by (simp add: jsonToErr_def json_stack_def stackInfo_layout Let_def)
qed

theorem C6_error_marshalling_witness:
  "cls demo_404 = AjaxErr \<lparr>status = 404, url = ''https://example.com/x'', responseText = ''not found'',
                            statusText = ''Not Found'', resMsg = None, resDetails = None\<rparr>
   \<and> jsonToErr ''at receiver'' (errToJson demo_rewrap demo_404) demo_msg =
       \<lparr>cls = AjaxErr \<lparr>status = 404, url = ''https://example.com/x'', responseText = ''not found'',
                            statusText = ''Not Found'', resMsg = None, resDetails = None\<rparr>,
        message = ''BrowserMsg(ping) 404 when GET-ing https://example.com/x'',
        stack = nl @ nl @ ''[callerStack]'' @ nl @ ''at caller'' @ nl @ ''[/callerStack]'' @ nl @ nl
                  @ ''[responderStack]'' @ nl @ ''at responder'' @ nl @ ''[/responderStack]'' @ nl\<rparr>
   \<and> (\<forall>d. cls \<lparr>cls = TypeError, message = ''boom'', stack = ''at responder''\<rparr> \<noteq> AjaxErr d)
   \<and> jsonToErr ''at receiver'' (errToJson demo_rewrap \<lparr>cls = TypeError, message = ''boom'', stack = ''at responder''\<rparr>)
        demo_msg =
       \<lparr>cls = Error, message = ''BrowserMsg(ping) sendRawResponse::boom'',
        stack = ''at receiver'' @ nl @ nl @ ''[callerStack]'' @ nl @ ''at caller'' @ nl @ ''[/callerStack]'' @ nl @ nl
                  @ ''[responderStack]'' @ nl @ ''at responder'' @ nl @ ''[/responderStack]'' @ nl\<rparr>"
  using C6_error_marshalling [of "''at receiver''" None demo_msg NoLastError demo_store demo_rewrap demo_store demo_404
      "\<lparr>status = 404, url = ''https://example.com/x'', responseText = ''not found'',
                            statusText = ''Not Found'', resMsg = None, resDetails = None\<rparr>"]
    C6_error_marshalling [of "''at receiver''" None demo_msg NoLastError demo_store demo_rewrap demo_store
      "\<lparr>cls = TypeError, message = ''boom'', stack = ''at responder''\<rparr>"]
  by (simp add: demo_404_def demo_msg_def demo_rewrap_def)

text \<open>
  Claim C2. An awaited call on the direct channel whose raw reply is absent or not an
  object (the reply is \<^verbatim>\<open>undefined\<close>, \<^verbatim>\<open>null\<close> or a primitive that \<^verbatim>\<open>String\<close>
  renders as \<open>rtxt\<close>) rejects, here and through \<^verbatim>\<open>sendRaw\<close> in a context that is not the
  background page. The platform text \<open>txt\<close> is the message of
  \<^verbatim>\<open>chrome.runtime.lastError\<close>, or \<^verbatim>\<open>(empty lastError)\<close> when that message is missing
  or empty, or \<^verbatim>\<open>(no lastError)\<close> when there is no \<^verbatim>\<open>lastError\<close>. The stack of the
  rejection is the sender's stack, two line breaks and the receive-side stack. With no
  destination and an undefined reply the two platform texts for a missing receiver or a
  closed port give a \<^verbatim>\<open>BgNotReadyErr\<close>, the text for an object that could not be
  cloned gives a plain \<^verbatim>\<open>Error\<close>, and any other text gives a plain \<^verbatim>\<open>Error\<close> with
  the message name and that text; in every other case the rejection is a plain
  \<^verbatim>\<open>Error\<close> that reports the reply and the platform text.
\<close>

theorem C2_reply_classification:
  assumes reply: "r = RUndefined \<and> rtxt = ''undefined'' \<or> r = RNull \<and> rtxt = ''null'' \<or> r = RPrimitive rtxt"
    and platform: "le = NoLastError \<and> txt = ''(no lastError)''
                 \<or> le = LastError None \<and> txt = ''(empty lastError)''
                 \<or> le = LastError (Some []) \<and> txt = ''(empty lastError)''
                 \<or> le = LastError (Some txt) \<and> txt \<noteq> []"
  shows "\<exists>e. processRawMsgResponse stk True destString msg le s r = (Rejected e, s)
     \<and> (\<not> isBackgroundPage env \<longrightarrow>
          sendRaw_promise stk env True destString msg s (Delivered (r # rs) le) = (Rejected e, s))
     \<and> stack e = msg_stack msg @ [CHR 0x0A, CHR 0x0A] @ stk
     \<and> (destString = None \<and> r = RUndefined \<longrightarrow>
          (txt = ''Could not establish connection. Receiving end does not exist.''
             \<or> txt = ''The message port closed before a response was received.'' \<longrightarrow>
             cls e = BgNotReadyErr
             \<and> message e = ''BgNotReadyErr: BrowserMsg.sendAwait('' @ msg_name msg @ '') failed with lastError: '' @ txt)
        \<and> (txt = ''The object could not be cloned.'' \<longrightarrow>
             cls e = Error
             \<and> message e = ''BrowserMsg.sendAwait('' @ msg_name msg
                             @ '') failed with lastError: The object could not be cloned.'')
        \<and> (txt \<noteq> ''Could not establish connection. Receiving end does not exist.''
             \<and> txt \<noteq> ''The message port closed before a response was received.''
             \<and> txt \<noteq> ''The object could not be cloned.'' \<longrightarrow>
             cls e = Error
             \<and> message e = ''BrowserMsg.sendAwait('' @ msg_name msg @ '') failed with unknown lastError: '' @ txt))
     \<and> (\<not> (destString = None \<and> r = RUndefined) \<longrightarrow>
          cls e = Error
          \<and> message e = ''BrowserMsg.sendAwait('' @ msg_name msg @ '') returned('' @ rtxt
                          @ '') with lastError: '' @ txt)"
proof -
  have t1: "lastError_text le = txt"
    using platform by (auto simp: lastError_text_def truthy_str_def or_empty_def)
  from reply show ?thesis
    by (elim disjE conjE)
       (simp_all add: processRawMsgResponse_def sendRaw_promise_def Let_def t1 String_of_reply_def nl_def)
qed

theorem C2_reply_classification_witness:
  "(RUndefined = RUndefined \<and> ''undefined'' = ''undefined'' \<or> RUndefined = RNull \<and> ''undefined'' = ''null''
      \<or> RUndefined = RPrimitive ''undefined'')
   \<and> processRawMsgResponse ''at receiver'' True None demo_msg
         (LastError (Some ''Could not establish connection. Receiving end does not exist.'')) demo_store RUndefined
       = (Rejected \<lparr>cls = BgNotReadyErr,
            message = ''BgNotReadyErr: BrowserMsg.sendAwait(ping) failed with lastError: Could not establish connection. Receiving end does not exist.'',
            stack = ''at caller'' @ [CHR 0x0A, CHR 0x0A] @ ''at receiver''\<rparr>, demo_store)
   \<and> processRawMsgResponse ''at receiver'' True None demo_msg
         (LastError (Some ''The object could not be cloned.'')) demo_store RUndefined
       = (Rejected \<lparr>cls = Error,
            message = ''BrowserMsg.sendAwait(ping) failed with lastError: The object could not be cloned.'',
            stack = ''at caller'' @ [CHR 0x0A, CHR 0x0A] @ ''at receiver''\<rparr>, demo_store)
   \<and> processRawMsgResponse ''at receiver'' True (Some ''tab1'') demo_msg NoLastError demo_store RNull
       = (Rejected \<lparr>cls = Error,
            message = ''BrowserMsg.sendAwait(ping) returned(null) with lastError: (no lastError)'',
            stack = ''at caller'' @ [CHR 0x0A, CHR 0x0A] @ ''at receiver''\<rparr>, demo_store)"
proof -
  have eq: "e = \<lparr>cls = cls e, message = message e, stack = stack e\<rparr>" for e :: js_err
    by simp
  from C2_reply_classification [of RUndefined "''undefined''"
        "LastError (Some ''Could not establish connection. Receiving end does not exist.'')"
        "''Could not establish connection. Receiving end does not exist.''"
        "''at receiver''" None demo_msg demo_store]
  obtain e1 where 1: "processRawMsgResponse ''at receiver'' True None demo_msg
         (LastError (Some ''Could not establish connection. Receiving end does not exist.'')) demo_store RUndefined
       = (Rejected e1, demo_store)"
      "cls e1 = BgNotReadyErr"
      "message e1 = ''BgNotReadyErr: BrowserMsg.sendAwait(ping) failed with lastError: Could not establish connection. Receiving end does not exist.''"
      "stack e1 = ''at caller'' @ [CHR 0x0A, CHR 0x0A] @ ''at receiver''"
    by (auto simp: demo_msg_def)
  from C2_reply_classification [of RUndefined "''undefined''"
        "LastError (Some ''The object could not be cloned.'')" "''The object could not be cloned.''"
        "''at receiver''" None demo_msg demo_store]
  obtain e2 where 2: "processRawMsgResponse ''at receiver'' True None demo_msg
         (LastError (Some ''The object could not be cloned.'')) demo_store RUndefined
       = (Rejected e2, demo_store)"
      "cls e2 = Error"
      "message e2 = ''BrowserMsg.sendAwait(ping) failed with lastError: The object could not be cloned.''"
      "stack e2 = ''at caller'' @ [CHR 0x0A, CHR 0x0A] @ ''at receiver''"
    by (auto simp: demo_msg_def)
  from C2_reply_classification [of RNull "''null''" NoLastError "''(no lastError)''"
        "''at receiver''" "Some ''tab1''" demo_msg demo_store]
  obtain e3 where 3: "processRawMsgResponse ''at receiver'' True (Some ''tab1'') demo_msg NoLastError demo_store RNull
       = (Rejected e3, demo_store)"
      "cls e3 = Error"
      "message e3 = ''BrowserMsg.sendAwait(ping) returned(null) with lastError: (no lastError)''"
      "stack e3 = ''at caller'' @ [CHR 0x0A, CHR 0x0A] @ ''at receiver''"
    by (auto simp: demo_msg_def)
  show ?thesis
    using eq [of e1] eq [of e2] eq [of e3] 1 2 3 by simp
qed

section \<open>Properties of the binary indirection\<close>

lemma get_field_mid:
  "k \<notin> fst ` set pre \<Longrightarrow> get_field (pre @ (k, v) # r) k = v"
  by (induction pre) (auto simp: get_field_def)

lemma update_mid:
  "k \<notin> fst ` set pre \<Longrightarrow> AList.update k v' (pre @ (k, v) # r) = pre @ (k, v') # r"
  by (induction pre) auto

lemma update_new:
  "k \<notin> fst ` set u \<Longrightarrow> AList.update k h u = u @ [(k, h)]"
  by (induction u) auto

lemma enc_urls_keys:
  "map fst (enc_urls n r) = map fst (filter (\<lambda>(k, v). is_Uint8Array v) r)"
  by (induction n r rule: enc_urls.induct) (simp_all add: is_Uint8Array_def split: jsv.splits)

lemma enc_urls_range:
  "(k, h) \<in> set (enc_urls n r) \<Longrightarrow> n \<le> h \<and> h < n + length (enc_urls n r)"
proof (induction n r arbitrary: k h rule: enc_urls.induct)
  case (1 n)
  then show ?case by simp
next
  case (2 n k' v r)
  show ?case
  proof (cases v)
    case (JBuf b)
    with "2.prems" have "h = n \<or> (k, h) \<in> set (enc_urls (Suc n) r)" by auto
    then show ?thesis
    proof
      assume "h = n" then show ?thesis using JBuf by simp
    next
      assume "(k, h) \<in> set (enc_urls (Suc n) r)"
      with "2.IH" JBuf have "Suc n \<le> h \<and> h < Suc n + length (enc_urls (Suc n) r)" by blast
      then show ?thesis using JBuf by simp
    qed
  qed (use 2 in simp_all)
qed

lemma enc_urls_distinct: "distinct (map snd (enc_urls n r))"
proof (induction n r rule: enc_urls.induct)
  case (1 n)
  then show ?case by simp
next
  case (2 n k v r)
  show ?case
  proof (cases v)
    case (JBuf b)
    have "n \<notin> snd ` set (enc_urls (Suc n) r)"
      using enc_urls_range [of _ n "Suc n" r] by fastforce
    then show ?thesis using JBuf 2 by simp
  qed (use 2 in simp_all)
qed

lemma enc_store_next: "next_handle (enc_store s r) = next_handle s + length (enc_urls (next_handle s) r)"
  by (induction s r rule: enc_store.induct) (simp_all add: objUrlCreate_def split: jsv.splits)

lemma enc_store_below: "h < next_handle s \<Longrightarrow> blobs (enc_store s r) h = blobs s h"
  by (induction s r arbitrary: h rule: enc_store.induct) (simp_all add: objUrlCreate_def split: jsv.splits)

lemma enc_store_above: "next_handle (enc_store s r) \<le> h \<Longrightarrow> blobs (enc_store s r) h = blobs s h"
proof (induction s r rule: enc_store.induct)
  case (1 s)
  then show ?case by simp
next
  case (2 s k v r)
  show ?case
  proof (cases v)
    case (JBuf b)
    with 2 have "blobs (enc_store (snd (objUrlCreate s b)) r) h = blobs (snd (objUrlCreate s b)) h" by simp
    moreover have "next_handle s < h"
      using "2.prems" JBuf by (simp add: enc_store_next objUrlCreate_def)
    ultimately show ?thesis using JBuf by (simp add: objUrlCreate_def)
  qed (use 2 in simp_all)
qed

lemma replaceBuf_loop_enc:
  "distinct (map fst (pre @ r)) \<Longrightarrow> fst ` set u0 \<inter> fst ` set r = {} \<Longrightarrow>
   replaceBuf_loop (map fst r) s (pre @ r) u0
     = (u0 @ enc_urls (next_handle s) r, pre @ enc_fields r, enc_store s r)"
proof (induction r arbitrary: pre s u0)
  case Nil
  then show ?case by (simp add: enc_fields_def)
next
  case (Cons kv r)
  obtain k v where kv: "kv = (k, v)" by (cases kv)
  from Cons.prems have kpre: "k \<notin> fst ` set pre" and kr: "k \<notin> fst ` set r" and ku: "k \<notin> fst ` set u0"
    and dist: "distinct (map fst ((pre @ [(k, v)]) @ r))" and disj: "fst ` set u0 \<inter> fst ` set r = {}"
    by (auto simp: kv)
  show ?case
  proof (cases "is_Uint8Array v")
    case True
    then obtain b where v: "v = JBuf b" by (cases v) (auto simp: is_Uint8Array_def)
    have dist': "distinct (map fst ((pre @ [(k, JUndefined)]) @ r))" using dist by simp
    have disj': "fst ` set (u0 @ [(k, next_handle s)]) \<inter> fst ` set r = {}" using disj kr by auto
    have ih: "replaceBuf_loop (map fst r) (snd (objUrlCreate s b)) ((pre @ [(k, JUndefined)]) @ r) (u0 @ [(k, next_handle s)])
        = ((u0 @ [(k, next_handle s)]) @ enc_urls (next_handle (snd (objUrlCreate s b))) r,
           (pre @ [(k, JUndefined)]) @ enc_fields r, enc_store (snd (objUrlCreate s b)) r)"
      by (rule Cons.IH [OF dist' disj'])
    show ?thesis
      using ih
      by (simp add: kv v get_field_mid [OF kpre] update_mid [OF kpre] update_new [OF ku]
          objUrlCreate_def enc_fields_def is_Uint8Array_def)
  next
    case False
    have ih: "replaceBuf_loop (map fst r) s ((pre @ [(k, v)]) @ r) u0
        = (u0 @ enc_urls (next_handle s) r, (pre @ [(k, v)]) @ enc_fields r, enc_store s r)"
      by (rule Cons.IH [OF dist disj])
    show ?thesis
      using ih False
      by (cases v) (simp_all add: kv get_field_mid [OF kpre] enc_fields_def is_Uint8Array_def)
  qed
qed


lemma replaceObjUrl_loop_dec:
  "distinct (map fst (pre @ r)) \<Longrightarrow>
   (\<forall>h. next_handle s \<le> h \<longrightarrow> blobs t h = blobs (enc_store s r) h) \<Longrightarrow>
   replaceObjUrl_loop (enc_urls (next_handle s) r) t (pre @ enc_fields r)
     = (Inr (pre @ r),
        t\<lparr>blobs := (\<lambda>h. if next_handle s \<le> h \<and> h < next_handle (enc_store s r) then None else blobs t h)\<rparr>)"
proof (induction r arbitrary: pre s t)
  case Nil
  have "(\<lambda>h. if next_handle s \<le> h \<and> h < next_handle s then None else blobs t h) = blobs t"
    by (auto simp: fun_eq_iff)
  then show ?case by (simp add: enc_fields_def)
next
  case (Cons kv r)
  obtain k v where kv: "kv = (k, v)" by (cases kv)
  from Cons.prems have kpre: "k \<notin> fst ` set pre"
    and dist: "distinct (map fst ((pre @ [(k, v)]) @ r))"
    by (auto simp: kv)
  show ?case
  proof (cases "is_Uint8Array v")
    case True
    then obtain b where v: "v = JBuf b" by (cases v) (auto simp: is_Uint8Array_def)
    define s1 where "s1 = snd (objUrlCreate s b)"
    define t1 where "t1 = t\<lparr>blobs := (blobs t)(next_handle s := None)\<rparr>"
    have n1: "next_handle s1 = Suc (next_handle s)" and b1: "blobs s1 (next_handle s) = Some b"
      by (simp_all add: s1_def objUrlCreate_def)
    have es: "enc_store s (kv # r) = enc_store s1 r" by (simp add: kv v s1_def)
    have live: "blobs t (next_handle s) = Some b"
      using Cons.prems(2) es enc_store_below [of "next_handle s" s1 r] n1 b1 by simp
    have agree: "\<forall>h. next_handle s1 \<le> h \<longrightarrow> blobs t1 h = blobs (enc_store s1 r) h"
      using Cons.prems(2) es by (simp add: t1_def n1)
    have dist': "distinct (map fst ((pre @ [(k, JBuf b)]) @ r))" using dist v by simp
    have ih: "replaceObjUrl_loop (enc_urls (next_handle s1) r) t1 ((pre @ [(k, JBuf b)]) @ enc_fields r)
        = (Inr ((pre @ [(k, JBuf b)]) @ r),
           t1\<lparr>blobs := (\<lambda>h. if next_handle s1 \<le> h \<and> h < next_handle (enc_store s1 r) then None else blobs t1 h)\<rparr>)"
      by (rule Cons.IH [OF dist' agree])
    have st: "t1\<lparr>blobs := (\<lambda>h. if next_handle s1 \<le> h \<and> h < next_handle (enc_store s1 r) then None else blobs t1 h)\<rparr>
        = t\<lparr>blobs := (\<lambda>h. if next_handle s \<le> h \<and> h < next_handle (enc_store s (kv # r)) then None else blobs t h)\<rparr>"
      by (auto simp: t1_def es n1 enc_store_next fun_eq_iff)
    have step: "replaceObjUrl_loop (enc_urls (next_handle s) (kv # r)) t (pre @ enc_fields (kv # r))
        = replaceObjUrl_loop (enc_urls (next_handle s1) r) t1 ((pre @ [(k, JBuf b)]) @ enc_fields r)"
      using live
      by (simp add: kv v n1 t1_def objUrlConsume_def enc_fields_def is_Uint8Array_def update_mid [OF kpre])
    show ?thesis
      unfolding step ih st by (simp add: kv v)
  next
    case False
    have es: "enc_store s (kv # r) = enc_store s r" "enc_urls (next_handle s) (kv # r) = enc_urls (next_handle s) r"
      using False by (cases v; simp add: kv is_Uint8Array_def)+
    have ef: "pre @ enc_fields (kv # r) = (pre @ [(k, v)]) @ enc_fields r"
      using False by (simp add: kv enc_fields_def)
    have agree: "\<forall>h. next_handle s \<le> h \<longrightarrow> blobs t h = blobs (enc_store s r) h"
      using Cons.prems(2) es by simp
    show ?thesis
      unfolding es ef using Cons.IH [OF dist agree] by (simp add: kv)
  qed
qed

lemma encode_object:
  assumes "distinct (map fst fs)"
  shows "replaceBufWithObjUrlInplace s (JObj fs)
           = (enc_urls (next_handle s) fs, JObj (enc_fields fs), enc_store s fs)"
  using replaceBuf_loop_enc [of "[]" fs "[]" s] assms
  by (simp add: replaceBufWithObjUrlInplace_def truthy_def typeof_object_def)

lemma decode_object:
  assumes "distinct (map fst fs)"
  shows "replaceObjUrlWithBuf (enc_store s fs) (JObj (enc_fields fs)) (enc_urls (next_handle s) fs)
           = (Inr (JObj fs),
              (enc_store s fs)\<lparr>blobs := (\<lambda>h. if next_handle s \<le> h \<and> h < next_handle (enc_store s fs) then None
                                                 else blobs (enc_store s fs) h)\<rparr>)"
  using replaceObjUrl_loop_dec [of "[]" fs s "enc_store s fs"] assms
  by (simp add: replaceObjUrlWithBuf_def truthy_def typeof_object_def)

lemma consumed_store_blobs:
  assumes "wf_store s"
  shows "(\<lambda>h. if next_handle s \<le> h \<and> h < next_handle (enc_store s fs) then None
              else blobs (enc_store s fs) h) = blobs s"
proof
  fix h
  have fresh: "next_handle s \<le> h \<Longrightarrow> blobs s h = None"
    using assms by (fastforce simp: wf_store_def)
  show "(if next_handle s \<le> h \<and> h < next_handle (enc_store s fs) then None
              else blobs (enc_store s fs) h) = blobs s h"
  proof (cases "h < next_handle s")
    case True
    then show ?thesis by (simp add: enc_store_below)
  next
    case False
    then show ?thesis
      using fresh enc_store_above [of s fs h] by (cases "h < next_handle (enc_store s fs)") simp_all
  qed
qed


lemma enc_urls_key_in: "(k, h) \<in> set (enc_urls n r) \<Longrightarrow> k \<in> fst ` set r"
proof -
  assume "(k, h) \<in> set (enc_urls n r)"
  then have "k \<in> set (map fst (enc_urls n r))" by force
  then show ?thesis unfolding enc_urls_keys by auto
qed

lemma enc_urls_holds:
  "distinct (map fst r) \<Longrightarrow> (k, h) \<in> set (enc_urls (next_handle s) r) \<Longrightarrow>
   \<exists>b. blobs (enc_store s r) h = Some b \<and> get_field r k = JBuf b"
proof (induction r arbitrary: s)
  case Nil
  then show ?case by simp
next
  case (Cons kv r)
  obtain k' v where kv: "kv = (k', v)" by (cases kv)
  from Cons.prems(1) have d: "distinct (map fst r)" and nk: "k' \<notin> fst ` set r" by (auto simp: kv)
  show ?case
  proof (cases "is_Uint8Array v")
    case True
    then obtain b' where v: "v = JBuf b'" by (cases v) (auto simp: is_Uint8Array_def)
    define s1 where "s1 = snd (objUrlCreate s b')"
    have n1: "next_handle s1 = Suc (next_handle s)" and b1: "blobs s1 (next_handle s) = Some b'"
      by (simp_all add: s1_def objUrlCreate_def)
    from Cons.prems(2) have "(k, h) = (k', next_handle s) \<or> (k, h) \<in> set (enc_urls (next_handle s1) r)"
      by (simp add: kv v n1)
    then show ?thesis
    proof
      assume "(k, h) = (k', next_handle s)"
      then show ?thesis
        using enc_store_below [of "next_handle s" s1 r] n1 b1
        by (simp add: kv v s1_def get_field_def)
    next
      assume mem: "(k, h) \<in> set (enc_urls (next_handle s1) r)"
      from enc_urls_key_in [OF mem] nk have "k \<noteq> k'" by auto
      with Cons.IH [OF d mem] show ?thesis
        by (simp add: kv v s1_def get_field_def)
    qed
  next
    case False
    have es: "enc_store s (kv # r) = enc_store s r"
        "enc_urls (next_handle s) (kv # r) = enc_urls (next_handle s) r"
      using False by (cases v; simp add: kv is_Uint8Array_def)+
    from Cons.prems(2) have mem: "(k, h) \<in> set (enc_urls (next_handle s) r)" by (simp add: es)
    from enc_urls_key_in [OF mem] nk have "k \<noteq> k'" by auto
    with Cons.IH [OF d mem] show ?thesis by (simp add: es) (simp add: kv get_field_def)
  qed
qed

text \<open>
  Claim C5. Encoding a payload object (\<^verbatim>\<open>replaceBufWithObjUrlInplace\<close>) replaces exactly
  the top-level properties that hold a byte buffer with \<^verbatim>\<open>undefined\<close> and records one
  handle under the name of each such property; the handles are distinct, were not live
  before, and each holds the bytes of its property. Decoding with those handles
  (\<^verbatim>\<open>replaceObjUrlWithBuf\<close>) gives the original payload back, byte for byte, and
  leaves none of the handles live; decoding the same handles a second time, as a
  duplicate delivery would, fails at the first handle and consumes nothing.
\<close>

theorem C5_binary_round_trip:
  assumes dist: "distinct (map fst fs)" and wf: "wf_store s"
    and enc: "replaceBufWithObjUrlInplace s (JObj fs) = (objUrls, v, s1)"
  shows "v = JObj (map (\<lambda>(k, x). (k, if is_Uint8Array x then JUndefined else x)) fs)
     \<and> map fst objUrls = map fst (filter (\<lambda>(k, x). is_Uint8Array x) fs)
     \<and> distinct (map snd objUrls)
     \<and> (\<forall>k h. (k, h) \<in> set objUrls \<longrightarrow>
           blobs s h = None \<and> (\<exists>b. blobs s1 h = Some b \<and> get_field fs k = JBuf b))
     \<and> (\<exists>s2. replaceObjUrlWithBuf s1 v objUrls = (Inr (JObj fs), s2)
              \<and> blobs s2 = blobs s
              \<and> (objUrls \<noteq> [] \<longrightarrow> (\<exists>e. replaceObjUrlWithBuf s2 v objUrls = (Inl e, s2))))"
proof -
  from enc encode_object [OF dist, of s]
  have u: "objUrls = enc_urls (next_handle s) fs" and v: "v = JObj (enc_fields fs)" and s1: "s1 = enc_store s fs"
    by simp_all
  define s2 where "s2 = (enc_store s fs)\<lparr>blobs := (\<lambda>h. if next_handle s \<le> h \<and> h < next_handle (enc_store s fs) then None
                                                 else blobs (enc_store s fs) h)\<rparr>"
  have fresh: "blobs s h = None" if "(k, h) \<in> set objUrls" for k h
  proof -
    from that enc_urls_range [of k h "next_handle s" fs] have "next_handle s \<le> h" by (simp add: u)
    with wf show ?thesis by (fastforce simp: wf_store_def)
  qed
  have dec: "replaceObjUrlWithBuf s1 v objUrls = (Inr (JObj fs), s2)"
    unfolding u v s1 s2_def by (rule decode_object [OF dist])
  have restored: "blobs s2 = blobs s"
    by (simp add: s2_def consumed_store_blobs [OF wf])
  have again: "\<exists>e. replaceObjUrlWithBuf s2 v objUrls = (Inl e, s2)" if ne: "objUrls \<noteq> []"
  proof -
    from ne obtain k0 h0 rest where o: "objUrls = (k0, h0) # rest" by (cases objUrls) auto
    then have "blobs s2 h0 = None" using fresh [of k0 h0] restored by simp
    then show ?thesis
      by (simp add: o v replaceObjUrlWithBuf_def truthy_def typeof_object_def objUrlConsume_def)
  qed
  show ?thesis
  proof (intro conjI allI impI exI [of _ s2])
    show "v = JObj (map (\<lambda>(k, x). (k, if is_Uint8Array x then JUndefined else x)) fs)"
      by (simp add: v enc_fields_def)
    show "map fst objUrls = map fst (filter (\<lambda>(k, x). is_Uint8Array x) fs)"
      by (simp add: u enc_urls_keys)
    show "distinct (map snd objUrls)" by (simp add: u enc_urls_distinct)
    show "replaceObjUrlWithBuf s1 v objUrls = (Inr (JObj fs), s2)" by (rule dec)
    show "blobs s2 = blobs s" by (rule restored)
  next
    fix k h assume "(k, h) \<in> set objUrls"
    then show "blobs s h = None" by (rule fresh)
  next
    fix k h assume "(k, h) \<in> set objUrls"
    then show "\<exists>b. blobs s1 h = Some b \<and> get_field fs k = JBuf b"
      unfolding u s1 by (rule enc_urls_holds [OF dist])
  next
    assume "objUrls \<noteq> []"
    then show "\<exists>e. replaceObjUrlWithBuf s2 v objUrls = (Inl e, s2)" by (rule again)
  qed
qed

theorem C5_binary_round_trip_witness:
  "distinct (map fst [(''data'', JBuf [1, 2, 3]), (''title'', JStr ''a'')])
   \<and> wf_store demo_store
   \<and> replaceBufWithObjUrlInplace demo_store (JObj [(''data'', JBuf [1, 2, 3]), (''title'', JStr ''a'')])
       = ([(''data'', 0)], JObj [(''data'', JUndefined), (''title'', JStr ''a'')],
          demo_store\<lparr>next_handle := 1, blobs := [0 \<mapsto> [1, 2, 3]]\<rparr>)
   \<and> fst (replaceObjUrlWithBuf (demo_store\<lparr>next_handle := 1, blobs := [0 \<mapsto> [1, 2, 3]]\<rparr>)
             (JObj [(''data'', JUndefined), (''title'', JStr ''a'')]) [(''data'', 0)])
       = Inr (JObj [(''data'', JBuf [1, 2, 3]), (''title'', JStr ''a'')])
   \<and> blobs (snd (replaceObjUrlWithBuf (demo_store\<lparr>next_handle := 1, blobs := [0 \<mapsto> [1, 2, 3]]\<rparr>)
             (JObj [(''data'', JUndefined), (''title'', JStr ''a'')]) [(''data'', 0)])) = blobs demo_store"
proof -
  have enc: "replaceBufWithObjUrlInplace demo_store (JObj [(''data'', JBuf [1, 2, 3]), (''title'', JStr ''a'')])
       = ([(''data'', 0)], JObj [(''data'', JUndefined), (''title'', JStr ''a'')],
          demo_store\<lparr>next_handle := 1, blobs := [0 \<mapsto> [1, 2, 3]]\<rparr>)"
    by (simp add: replaceBufWithObjUrlInplace_def truthy_def typeof_object_def get_field_def objUrlCreate_def
        demo_store_def)
  have d: "distinct (map fst [(''data'', JBuf [1, 2, 3]), (''title'', JStr ''a'')])" by simp
  have w: "wf_store demo_store" by (simp add: wf_store_def demo_store_def)
  from C5_binary_round_trip [OF d w enc] enc d w show ?thesis by auto
qed

section \<open>Properties of the listeners\<close>

lemma direct_respond_frame [simp]:
  "processed (direct_respond m r c) = processed c"
  "invoked (direct_respond m r c) = invoked c"
  "posted (direct_respond m r c) = posted c"
  "awaiting_decrypt (direct_respond m r c) = awaiting_decrypt c"
  by (simp_all add: direct_respond_def)

lemma window_respond_frame [simp]:
  "processed (window_respond m r c) = processed c"
  "invoked (window_respond m r c) = invoked c"
  "posted (window_respond m r c) = posted c"
  "awaiting_decrypt (window_respond m r c) = awaiting_decrypt c"
  by (simp_all add: window_respond_def split: option.splits jsv.splits)

lemma dispatch_processed:
  assumes "\<And>m r c. processed (rawRespond m r c) = processed c"
  shows "processed (dispatch rw f msg rawRespond c) = processed c"
  by (simp add: dispatch_def assms split: prod.splits sum.splits found.splits)

lemma dispatch_posted:
  assumes "\<And>m r c. posted (rawRespond m r c) = posted c"
  shows "posted (dispatch rw f msg rawRespond c) = posted c"
  by (simp add: dispatch_def assms split: prod.splits sum.splits found.splits)

lemma dispatch_invoked:
  assumes "\<And>m r c. invoked (rawRespond m r c) = invoked c"
    and "fst (replaceObjUrlWithBuf (store c) (msg_bm msg) (msg_objUrls msg)) = Inr bm"
  shows "invoked (dispatch rw (OwnHandler h) msg rawRespond c) = invoked c @ [(msg_name msg, bm)]"
proof -
  from assms(2) obtain s1 where "replaceObjUrlWithBuf (store c) (msg_bm msg) (msg_objUrls msg) = (Inr bm, s1)"
    by (cases "replaceObjUrlWithBuf (store c) (msg_bm msg) (msg_objUrls msg)") auto
  then show ?thesis
    by (simp add: dispatch_def assms(1) split: prod.splits)
qed

lemma handleMsg_first:
  assumes resp: "\<And>m r c. processed (rawRespond m r c) = processed c"
      "\<And>m r c. invoked (rawRespond m r c) = invoked c"
    and unseen: "msg_uid msg \<notin> processed c"
    and reg: "HANDLERS_REGISTERED_FRAME c (msg_name msg) = Some h"
    and dec: "fst (replaceObjUrlWithBuf (store c) (msg_bm msg) (msg_objUrls msg)) = Inr bm"
  shows "fst (handleMsg rw c msg rawRespond)"
    and "processed (snd (handleMsg rw c msg rawRespond)) = insert (msg_uid msg) (processed c)"
    and "invoked (snd (handleMsg rw c msg rawRespond)) = invoked c @ [(msg_name msg, bm)]"
  using unseen reg dec
  by (simp_all add: handleMsg_def Let_def registry_get_def dispatch_processed resp dispatch_invoked)

lemma handleMsg_seen:
  "msg_uid msg \<in> processed c \<Longrightarrow> handleMsg rw c msg rawRespond = (False, c)"
  by (simp add: handleMsg_def)

lemma handleMsg_posted:
  assumes "\<And>m r c. posted (rawRespond m r c) = posted c"
  shows "posted (snd (handleMsg rw c msg rawRespond)) = posted c"
  by (simp add: handleMsg_def Let_def dispatch_posted assms split: option.splits)

lemma handleMsg_unregistered:
  "registry_get c (HANDLERS_REGISTERED_FRAME c) (msg_name msg) = None \<Longrightarrow> msg_uid msg \<notin> processed c \<Longrightarrow>
   handleMsg rw c msg rawRespond = (False, c\<lparr>processed := insert (msg_uid msg) (processed c)\<rparr>)"
  by (simp add: handleMsg_def Let_def registry_get_def split: option.splits)

lemma decrypt_encrypt [simp]:
  "decrypt (encrypt msg) = msg"
  "decrypt ((encrypt msg)\<lparr>enc_propagateToParent := b\<rparr>) = msg"
  "enc_uid (encrypt msg) = msg_uid msg"
  "enc_to (encrypt msg) = or_empty (msg_to msg)"
  by (simp_all add: decrypt_def encrypt_def)










lemma sendUpParentLine_loop_map:
  "sendUpParentLine_loop ws p m = map (\<lambda>_. (p, ''*'', m)) ws"
  by (induction ws) simp_all

lemma sendUpParentLine_top: "parent_line env = [] \<Longrightarrow> sendUpParentLine env e = []"
  by (simp add: sendUpParentLine_def)

lemma sendUpParentLine_posts:
  "parent_line env = p # ps \<Longrightarrow>
   sendUpParentLine env e = map (\<lambda>_. (p, ''*'', e\<lparr>enc_propagateToParent := True\<rparr>)) (p # ps)"
  by (simp add: sendUpParentLine_def sendUpParentLine_loop_map Let_def)

lemma propagate_unhandled_top:
  "parent_line env = [] \<Longrightarrow> posted (propagate_unhandled env e handled c) = posted c"
  by (simp add: propagate_unhandled_def sendUpParentLine_top)

text \<open>
  Claim C7, as amended. A window message from an origin other than
  \<^verbatim>\<open>https://mail.google.com\<close> and the extension's is ignored. Take a window message from
  one of these two origins whose id is not yet processed. If it is not addressed to this
  context or to \<^verbatim>\<open>broadcast\<close> and carries the propagation flag, the listener marks the
  id as processed and forwards the message up the parent line, and changes nothing else.
  If it is addressed here, the listener is suspended until the message is decrypted.
  When the listener resumes, then: if the name is neither registered nor inherited and
  the message carries the flag, the listener marks the ids as processed and forwards the
  message up the parent line; if a handler is registered for the name and the id of the
  decrypted envelope is not processed, the handler branch is taken, the handler runs on
  the decoded request, and that run of the listener forwards nothing. In the top window
  nothing is forwarded. Where a message is forwarded from a window that has a parent,
  the parent window receives it with the flag set.
\<close>

theorem C7_inbound_forwarding:
  "(\<not> trusted_origin env origin \<longrightarrow> listenForWindowMessages env dest c origin e = c)
   \<and> (trusted_origin env origin \<and> enc_uid e \<notin> processed c \<and> \<not> addressed_to dest (enc_to e)
        \<and> enc_propagateToParent e \<longrightarrow>
      listenForWindowMessages env dest c origin e
        = c\<lparr>processed := insert (enc_uid e) (processed c), posted := posted c @ sendUpParentLine env e\<rparr>)
   \<and> (trusted_origin env origin \<and> enc_uid e \<notin> processed c \<and> addressed_to dest (enc_to e) \<longrightarrow>
      listenForWindowMessages env dest c origin e = c\<lparr>awaiting_decrypt := awaiting_decrypt c @ [e]\<rparr>)
   \<and> (e \<in> set (awaiting_decrypt c)
        \<and> registry_get c (HANDLERS_REGISTERED_FRAME c) (msg_name (decrypt e)) = None
        \<and> enc_propagateToParent e \<longrightarrow>
      listenForWindowMessages_resumed rw env c e
        = c\<lparr>awaiting_decrypt := remove1 e (awaiting_decrypt c),
            processed := insert (enc_uid e) (insert (msg_uid (decrypt e)) (processed c)),
            posted := posted c @ sendUpParentLine env e\<rparr>)
   \<and> (e \<in> set (awaiting_decrypt c) \<and> msg_uid (decrypt e) \<notin> processed c
        \<and> HANDLERS_REGISTERED_FRAME c (msg_name (decrypt e)) = Some h
        \<and> fst (replaceObjUrlWithBuf (store c) (msg_bm (decrypt e)) (msg_objUrls (decrypt e))) = Inr bm \<longrightarrow>
      fst (handleMsg rw (c\<lparr>awaiting_decrypt := remove1 e (awaiting_decrypt c)\<rparr>) (decrypt e) window_respond)
      \<and> invoked (listenForWindowMessages_resumed rw env c e) = invoked c @ [(msg_name (decrypt e), bm)]
      \<and> posted (listenForWindowMessages_resumed rw env c e) = posted c)
   \<and> (parent_line env = [] \<longrightarrow>
        posted (listenForWindowMessages env dest c origin e) = posted c
        \<and> posted (listenForWindowMessages_resumed rw env c e) = posted c)
   \<and> (\<forall>p ps. parent_line env = p # ps \<longrightarrow>
          (p, ''*'', e\<lparr>enc_propagateToParent := True\<rparr>) \<in> set (sendUpParentLine env e))"
proof (intro conjI impI allI)
  assume "\<not> trusted_origin env origin"
  then show "listenForWindowMessages env dest c origin e = c"
    by (simp add: listenForWindowMessages_def)
next
  assume "trusted_origin env origin \<and> enc_uid e \<notin> processed c \<and> \<not> addressed_to dest (enc_to e)
        \<and> enc_propagateToParent e"
  then show "listenForWindowMessages env dest c origin e
        = c\<lparr>processed := insert (enc_uid e) (processed c), posted := posted c @ sendUpParentLine env e\<rparr>"
    by (simp add: listenForWindowMessages_def propagate_unhandled_def)
next
  assume "trusted_origin env origin \<and> enc_uid e \<notin> processed c \<and> addressed_to dest (enc_to e)"
  then show "listenForWindowMessages env dest c origin e = c\<lparr>awaiting_decrypt := awaiting_decrypt c @ [e]\<rparr>"
    by (simp add: listenForWindowMessages_def)
next
  let ?c = "c\<lparr>awaiting_decrypt := remove1 e (awaiting_decrypt c)\<rparr>"
  assume a: "e \<in> set (awaiting_decrypt c)
        \<and> registry_get c (HANDLERS_REGISTERED_FRAME c) (msg_name (decrypt e)) = None
        \<and> enc_propagateToParent e"
  then have none: "registry_get ?c (HANDLERS_REGISTERED_FRAME ?c) (msg_name (decrypt e)) = None"
    by (simp add: registry_get_def split: option.splits)
  show "listenForWindowMessages_resumed rw env c e
        = c\<lparr>awaiting_decrypt := remove1 e (awaiting_decrypt c),
            processed := insert (enc_uid e) (insert (msg_uid (decrypt e)) (processed c)),
            posted := posted c @ sendUpParentLine env e\<rparr>"
  proof (cases "msg_uid (decrypt e) \<in> processed c")
    case True
    then have "insert (msg_uid (decrypt e)) (processed c) = processed c" by auto
    with True a show ?thesis
      by (simp add: listenForWindowMessages_resumed_def propagate_unhandled_def handleMsg_seen)
  next
    case False
    then have "msg_uid (decrypt e) \<notin> processed ?c" by simp
    from handleMsg_unregistered [OF none this, of rw window_respond] a show ?thesis
      by (simp add: listenForWindowMessages_resumed_def propagate_unhandled_def)
  qed
next
  let ?c = "c\<lparr>awaiting_decrypt := remove1 e (awaiting_decrypt c)\<rparr>"
  assume b: "e \<in> set (awaiting_decrypt c) \<and> msg_uid (decrypt e) \<notin> processed c
        \<and> HANDLERS_REGISTERED_FRAME c (msg_name (decrypt e)) = Some h
        \<and> fst (replaceObjUrlWithBuf (store c) (msg_bm (decrypt e)) (msg_objUrls (decrypt e))) = Inr bm"
  then have u: "msg_uid (decrypt e) \<notin> processed ?c"
    and r: "HANDLERS_REGISTERED_FRAME ?c (msg_name (decrypt e)) = Some h"
    and d: "fst (replaceObjUrlWithBuf (store ?c) (msg_bm (decrypt e)) (msg_objUrls (decrypt e))) = Inr bm"
    by simp_all
  note first = handleMsg_first [of window_respond "decrypt e" ?c h bm rw, OF _ _ u r d]
  from first(1) show handled: "fst (handleMsg rw ?c (decrypt e) window_respond)" by simp
  obtain c1 where hm: "handleMsg rw ?c (decrypt e) window_respond = (True, c1)"
    using handled by (cases "handleMsg rw ?c (decrypt e) window_respond") auto
  from first(3) hm have inv: "invoked c1 = invoked c @ [(msg_name (decrypt e), bm)]" by simp
  from handleMsg_posted [of window_respond rw ?c "decrypt e"] hm have post: "posted c1 = posted c" by simp
  show "invoked (listenForWindowMessages_resumed rw env c e) = invoked c @ [(msg_name (decrypt e), bm)]"
    using b hm inv by (simp add: listenForWindowMessages_resumed_def propagate_unhandled_def)
  show "posted (listenForWindowMessages_resumed rw env c e) = posted c"
    using b hm post by (simp add: listenForWindowMessages_resumed_def propagate_unhandled_def)
next
  assume top: "parent_line env = []"
  show "posted (listenForWindowMessages env dest c origin e) = posted c"
    by (simp add: listenForWindowMessages_def propagate_unhandled_top [OF top])
  show "posted (listenForWindowMessages_resumed rw env c e) = posted c"
    using handleMsg_posted [of window_respond rw "c\<lparr>awaiting_decrypt := remove1 e (awaiting_decrypt c)\<rparr>" "decrypt e"]
    by (auto simp: listenForWindowMessages_resumed_def propagate_unhandled_top [OF top] split: prod.splits)
next
  fix p ps assume "parent_line env = p # ps"
  then show "(p, ''*'', e\<lparr>enc_propagateToParent := True\<rparr>) \<in> set (sendUpParentLine env e)"
    by (simp add: sendUpParentLine_posts)
qed

text \<open>
  A flagged window message from any other origin is dropped: its id is not marked and it
  is not forwarded, although the frame has a parent. A flagged message addressed to the
  context under the name \<^verbatim>\<open>toString\<close>, for which no handler is registered, counts as
  handled and is not forwarded. When two flagged copies of a broadcast arrive before the
  listener resumes for the first, the handler runs once and the second resumption
  forwards the message to the parent.
\<close>

theorem C7_untrusted_origin_counterexample:
  "enc_uid demo_forward \<notin> processed demo_ctx
   \<and> enc_propagateToParent demo_forward
   \<and> \<not> addressed_to ''tab1'' (enc_to demo_forward)
   \<and> parent_line demo_env = [2, 1, 0]
   \<and> enc_uid demo_forward \<notin> processed
        (listenForWindowMessages demo_env ''tab1'' demo_ctx ''https://evil.example'' demo_forward)
   \<and> posted (listenForWindowMessages demo_env ''tab1'' demo_ctx ''https://evil.example'' demo_forward) = []
   \<and> HANDLERS_REGISTERED_FRAME demo_ctx ''toString'' = None
   \<and> enc_propagateToParent demo_inherited \<and> msg_name (decrypt demo_inherited) = ''toString''
   \<and> posted (run_schedule demo_rewrap demo_env ''tab1'' demo_ctx
               [Window ''chrome-extension://abc'' demo_inherited, Resumed demo_inherited]) = []
   \<and> invoked (run_schedule demo_rewrap demo_env ''tab1'' demo_ctx
               [Window ''chrome-extension://abc'' demo_overlap, Window ''chrome-extension://abc'' demo_overlap,
                Resumed demo_overlap, Resumed demo_overlap]) = [(''ping'', JObj [])]
   \<and> map fst (posted (run_schedule demo_rewrap demo_env ''tab1'' demo_ctx
               [Window ''chrome-extension://abc'' demo_overlap, Window ''chrome-extension://abc'' demo_overlap,
                Resumed demo_overlap, Resumed demo_overlap])) = [2, 2, 2]"
  by (simp add: listenForWindowMessages_def listenForWindowMessages_resumed_def run_schedule_def occur_def
      propagate_unhandled_def handleMsg_def registry_get_def dispatch_def window_respond_def
      sendRawResponse_def errToJson_def replaceObjUrlWithBuf_def replaceBufWithObjUrlInplace_def
      truthy_def typeof_object_def get_field_def sendUpParentLine_def
      trusted_origin_def demo_env_def demo_ctx_def demo_forward_def demo_inherited_def demo_overlap_def
      demo_broadcast_def demo_toString_def demo_rewrap_def
      encrypt_def decrypt_def demo_msg_def addressed_to_def or_empty_def Let_def)

theorem C7_inbound_forwarding_witness:
  "trusted_origin demo_env ''chrome-extension://abc''
   \<and> enc_uid demo_forward \<notin> processed demo_ctx
   \<and> enc_propagateToParent demo_forward
   \<and> \<not> addressed_to ''tab1'' (enc_to demo_forward)
   \<and> enc_uid demo_forward \<in> processed
        (listenForWindowMessages demo_env ''tab1'' demo_ctx ''chrome-extension://abc'' demo_forward)
   \<and> posted (listenForWindowMessages demo_env ''tab1'' demo_ctx ''chrome-extension://abc'' demo_forward)
        = sendUpParentLine demo_env demo_forward
   \<and> (2, ''*'', demo_forward) \<in> set (sendUpParentLine demo_env demo_forward)
   \<and> \<not> trusted_origin demo_env ''https://evil.example''
   \<and> listenForWindowMessages demo_env ''tab1'' demo_ctx ''https://evil.example'' demo_forward = demo_ctx
   \<and> demo_unknown \<in> set (awaiting_decrypt (demo_ctx\<lparr>awaiting_decrypt := [demo_unknown]\<rparr>))
   \<and> registry_get demo_ctx (HANDLERS_REGISTERED_FRAME demo_ctx) (msg_name (decrypt demo_unknown)) = None
   \<and> enc_propagateToParent demo_unknown
   \<and> posted (listenForWindowMessages_resumed demo_rewrap demo_env
               (demo_ctx\<lparr>awaiting_decrypt := [demo_unknown]\<rparr>) demo_unknown)
        = sendUpParentLine demo_env demo_unknown"
proof -
  have h: "trusted_origin demo_env ''chrome-extension://abc''" "enc_uid demo_forward \<notin> processed demo_ctx"
      "\<not> trusted_origin demo_env ''https://evil.example''"
    by (simp_all add: trusted_origin_def demo_env_def demo_ctx_def)
  have a: "enc_propagateToParent demo_forward" "\<not> addressed_to ''tab1'' (enc_to demo_forward)"
    by (simp_all add: demo_forward_def encrypt_def demo_msg_def addressed_to_def or_empty_def)
  have up: "sendUpParentLine demo_env demo_forward
      = [(2, ''*'', demo_forward), (2, ''*'', demo_forward), (2, ''*'', demo_forward)]"
    by (simp add: sendUpParentLine_def demo_env_def demo_forward_def Let_def)
  have u: "demo_unknown \<in> set (awaiting_decrypt (demo_ctx\<lparr>awaiting_decrypt := [demo_unknown]\<rparr>))"
      "registry_get (demo_ctx\<lparr>awaiting_decrypt := [demo_unknown]\<rparr>)
         (HANDLERS_REGISTERED_FRAME (demo_ctx\<lparr>awaiting_decrypt := [demo_unknown]\<rparr>))
         (msg_name (decrypt demo_unknown)) = None"
      "registry_get demo_ctx (HANDLERS_REGISTERED_FRAME demo_ctx) (msg_name (decrypt demo_unknown)) = None"
      "enc_propagateToParent demo_unknown"
    by (simp_all add: demo_unknown_def demo_ctx_def registry_get_def encrypt_def decrypt_def demo_msg_def)
  have 1: "listenForWindowMessages demo_env ''tab1'' demo_ctx ''chrome-extension://abc'' demo_forward
        = demo_ctx\<lparr>processed := insert (enc_uid demo_forward) (processed demo_ctx),
                   posted := posted demo_ctx @ sendUpParentLine demo_env demo_forward\<rparr>"
    using C7_inbound_forwarding [of demo_env "''chrome-extension://abc''" "''tab1''" demo_ctx demo_forward] h a
    by blast
  have 2: "listenForWindowMessages demo_env ''tab1'' demo_ctx ''https://evil.example'' demo_forward = demo_ctx"
    using C7_inbound_forwarding [of demo_env "''https://evil.example''" "''tab1''" demo_ctx demo_forward] h
    by blast
  have 3: "(2, ''*'', demo_forward\<lparr>enc_propagateToParent := True\<rparr>) \<in> set (sendUpParentLine demo_env demo_forward)"
    using C7_inbound_forwarding [of demo_env "''chrome-extension://abc''" "''tab1''" demo_ctx demo_forward]
    by (simp add: demo_env_def)
  have 4: "posted (listenForWindowMessages_resumed demo_rewrap demo_env
               (demo_ctx\<lparr>awaiting_decrypt := [demo_unknown]\<rparr>) demo_unknown)
        = posted (demo_ctx\<lparr>awaiting_decrypt := [demo_unknown]\<rparr>) @ sendUpParentLine demo_env demo_unknown"
    using C7_inbound_forwarding [of demo_env "''chrome-extension://abc''" "''tab1''"
        "demo_ctx\<lparr>awaiting_decrypt := [demo_unknown]\<rparr>" demo_unknown demo_rewrap] u
    by simp
  have f: "demo_forward\<lparr>enc_propagateToParent := True\<rparr> = demo_forward"
    by (simp add: demo_forward_def)
  from 1 2 3 4 h a u show ?thesis by (simp add: demo_ctx_def f)
qed

lemma sendToChildren_map:
  "sendToChildren env e =
     map (\<lambda>w. (w, extensionOrigin env, e))
       (List.map_filter contentWindow (filter (\<lambda>f. src_origin f = Some (extensionOrigin env)) (iframes env)))"
proof -
  have "concat (map (\<lambda>f. case contentWindow f of None \<Rightarrow> [] | Some w \<Rightarrow> [(w, x, e)]) fs)
      = map (\<lambda>w. (w, x, e)) (List.map_filter contentWindow fs)" for fs :: "iframe list" and x :: string
    by (induction fs) (simp_all add: List.map_filter_simps split: option.splits)
  then show ?thesis by (simp add: sendToChildren_def)
qed

text \<open>
  Claim C3, as amended. A send with a non-empty destination from a context that is not
  the background page encrypts the envelope (the ciphertext shows the envelope's id) and
  posts the ciphertext once to the content window of every iframe of the document whose
  source has the extension's origin, once to the document's own window, and, with the
  propagation flag set, into the parent line: as many posts as the window has ancestors,
  each to an ancestor, the parent window among them. It posts to no other window.
\<close>

theorem C3_outbound_propagation:
  assumes frame: "\<not> isBackgroundPage env" and dest: "truthy_str destString"
    and e: "e = encrypt \<lparr>msg_name = name, msg_bm = bm, msg_objUrls = objUrls, msg_to = destString,
                           msg_uid = uid, msg_stack = stackTrace, msg_responseName = None,
                           msg_propagateToParent = False\<rparr>"
  shows "posted (snd (sendRaw stk env chrome uid stackTrace c destString name bm objUrls awaitRes))
           = posted c @ sendToChildren env e @ [(self_win env, ''*'', e)] @ sendUpParentLine env e
     \<and> enc_uid e = uid \<and> msg_bm (decrypt e) = bm \<and> msg_name (decrypt e) = name
     \<and> sendToChildren env e =
           map (\<lambda>w. (w, extensionOrigin env, e))
             (List.map_filter contentWindow
                (filter (\<lambda>f. src_origin f = Some (extensionOrigin env)) (iframes env)))
     \<and> length (sendUpParentLine env e) = length (parent_line env)
     \<and> (\<forall>p\<in>set (sendUpParentLine env e).
           fst p \<in> set (parent_line env) \<and> snd (snd p) = e\<lparr>enc_propagateToParent := True\<rparr>)
     \<and> (parent_line env \<noteq> [] \<longrightarrow>
           (hd (parent_line env), ''*'', e\<lparr>enc_propagateToParent := True\<rparr>) \<in> set (sendUpParentLine env e))
     \<and> (\<forall>p\<in>set (sendToChildren env e @ [(self_win env, ''*'', e)] @ sendUpParentLine env e).
           fst p = self_win env \<or> fst p \<in> set (parent_line env)
           \<or> (\<exists>f\<in>set (iframes env). contentWindow f = Some (fst p) \<and> src_origin f = Some (extensionOrigin env)))"
proof (intro conjI impI ballI)
  fix p assume "p \<in> set (sendToChildren env e @ [(self_win env, ''*'', e)] @ sendUpParentLine env e)"
  then consider "p \<in> set (sendToChildren env e)" | "p = (self_win env, ''*'', e)" | "p \<in> set (sendUpParentLine env e)"
    by auto
  then show "fst p = self_win env \<or> fst p \<in> set (parent_line env)
           \<or> (\<exists>f\<in>set (iframes env). contentWindow f = Some (fst p) \<and> src_origin f = Some (extensionOrigin env))"
  proof cases
    case 1
    then show ?thesis by (auto simp: sendToChildren_def split: option.splits)
  next
    case 2
    then show ?thesis by simp
  next
    case 3
    then show ?thesis
      by (cases "parent_line env") (auto simp: sendUpParentLine_top sendUpParentLine_posts)
  qed
next
  have to: "or_null destString = destString" "destString \<noteq> None"
    using dest by (auto simp: or_null_def truthy_str_def split: option.splits)
  show "posted (snd (sendRaw stk env chrome uid stackTrace c destString name bm objUrls awaitRes))
           = posted c @ sendToChildren env e @ [(self_win env, ''*'', e)] @ sendUpParentLine env e"
    using frame to by (simp add: sendRaw_def sendRaw_window_def Let_def e split: prod.splits)
  show "enc_uid e = uid" "msg_bm (decrypt e) = bm" "msg_name (decrypt e) = name"
    by (simp_all add: e encrypt_def decrypt_def)
  show "sendToChildren env e =
           map (\<lambda>w. (w, extensionOrigin env, e))
             (List.map_filter contentWindow
                (filter (\<lambda>f. src_origin f = Some (extensionOrigin env)) (iframes env)))"
    by (rule sendToChildren_map)
  show "length (sendUpParentLine env e) = length (parent_line env)"
    by (cases "parent_line env") (simp_all add: sendUpParentLine_top sendUpParentLine_posts)
next
  fix p assume "p \<in> set (sendUpParentLine env e)"
  then show "fst p \<in> set (parent_line env)" "snd (snd p) = e\<lparr>enc_propagateToParent := True\<rparr>"
    by (cases "parent_line env"; auto simp: sendUpParentLine_top sendUpParentLine_posts)+
next
  assume "parent_line env \<noteq> []"
  then show "(hd (parent_line env), ''*'', e\<lparr>enc_propagateToParent := True\<rparr>) \<in> set (sendUpParentLine env e)"
    by (cases "parent_line env") (simp_all add: sendUpParentLine_posts)
qed

text \<open>
  From a frame three levels below the top window, the posts of one broadcast go to the
  child frame, to the frame itself and to its parent; none goes to the two windows above
  the parent.
\<close>

theorem C3_parent_line_counterexample:
  "\<not> isBackgroundPage demo_env \<and> msg_to demo_broadcast = Some ''broadcast''
   \<and> parent_line demo_env = [2, 1, 0]
   \<and> map fst (sendRaw_window demo_env demo_broadcast) = [5, 3, 2, 2, 2]"
  by (simp add: sendRaw_window_def sendToChildren_def sendUpParentLine_def demo_env_def demo_broadcast_def
      demo_msg_def Let_def)

theorem C3_outbound_propagation_witness:
  "\<not> isBackgroundPage demo_env \<and> truthy_str (Some ''broadcast'')
   \<and> posted (snd (sendRaw [] demo_env (\<lambda>_ s. (RuntimeMissing, s)) ''u1'' ''at caller'' demo_ctx
                     (Some ''broadcast'') ''ping'' (JObj []) [] False))
       = [(5, ''chrome-extension://abc'', encrypt demo_broadcast), (3, ''*'', encrypt demo_broadcast)]
           @ sendUpParentLine demo_env (encrypt demo_broadcast)
   \<and> length (sendUpParentLine demo_env (encrypt demo_broadcast)) = 3
   \<and> (2, ''*'', (encrypt demo_broadcast)\<lparr>enc_propagateToParent := True\<rparr>)
        \<in> set (sendUpParentLine demo_env (encrypt demo_broadcast))"
proof -
  have h: "\<not> isBackgroundPage demo_env" "truthy_str (Some ''broadcast'')"
    by (simp_all add: demo_env_def truthy_str_def)
  have e: "encrypt demo_broadcast = encrypt \<lparr>msg_name = ''ping'', msg_bm = JObj [], msg_objUrls = [],
        msg_to = Some ''broadcast'', msg_uid = ''u1'', msg_stack = ''at caller'', msg_responseName = None,
        msg_propagateToParent = False\<rparr>"
    by (simp add: demo_broadcast_def demo_msg_def)
  have pl: "parent_line demo_env = [2, 1, 0]" "self_win demo_env = 3"
    by (simp_all add: demo_env_def)
  have ch: "sendToChildren demo_env (encrypt demo_broadcast) = [(5, ''chrome-extension://abc'', encrypt demo_broadcast)]"
    by (simp add: sendToChildren_def demo_env_def)
  from C3_outbound_propagation [OF h e, of "[]" "\<lambda>_ s. (RuntimeMissing, s)" demo_ctx False]
  show ?thesis using h pl ch by (simp add: demo_ctx_def)
qed

section \<open>Properties of the sending side\<close>

lemma result_round_trip:
  assumes "wf_object v" and "replaceBufWithObjUrlInplace s v = (u, v', s')"
  shows "(if \<not> truthy v' \<or> \<not> typeof_object v' then v' = v
          else fst (replaceObjUrlWithBuf s' v' u) = Inr v)"
proof (cases v)
  case (JObj gs)
  with assms(1) have d: "distinct (map fst gs)" by (simp add: wf_object_def)
  from assms(2) encode_object [OF d, of s]
  have "u = enc_urls (next_handle s) gs" "v' = JObj (enc_fields gs)" "s' = enc_store s gs"
    by (simp_all add: JObj)
  then show ?thesis
    using decode_object [OF d, of s] by (simp add: truthy_def typeof_object_def JObj)
next
  case (JBuf b)
  with assms(2) show ?thesis
    by (auto simp: replaceBufWithObjUrlInplace_def replaceObjUrlWithBuf_def truthy_def typeof_object_def)
qed (use assms(2) in \<open>auto simp: replaceBufWithObjUrlInplace_def truthy_def typeof_object_def\<close>)

lemma reply_to_result:
  assumes "wf_object v"
  shows "fst (processRawMsgResponse stk True destString msg le (snd (sendRawResponse rw s (Inr v)))
           (RObject (fst (sendRawResponse rw s (Inr v))))) = Resolved v"
proof -
  obtain u v' s' where enc: "replaceBufWithObjUrlInplace s v = (u, v', s')"
    by (cases "replaceBufWithObjUrlInplace s v") auto
  from result_round_trip [OF assms enc] show ?thesis
    by (auto simp: processRawMsgResponse_def sendRawResponse_def enc split: prod.splits sum.splits)
qed

lemma result_enc_value:
  assumes "wf_object v"
  shows "res_result (fst (sendRawResponse rw s (Inr v))) = enc_value v"
proof (cases v)
  case (JObj gs)
  with assms have d: "distinct (map fst gs)" by (simp add: wf_object_def)
  show ?thesis
    by (simp add: sendRawResponse_def JObj encode_object [OF d] enc_value_def)
qed (simp_all add: sendRawResponse_def replaceBufWithObjUrlInplace_def enc_value_def truthy_def typeof_object_def)

lemma carried_result:
  "carries clone (res_result r) \<Longrightarrow> clone_result clone r = Some r"
  by (auto simp: carries_def clone_result_def)

lemma no_reply_rejects:
  "\<exists>e'. processRawMsgResponse stk True None m le s RUndefined = (Rejected e', s)
        \<and> (cls e' = BgNotReadyErr \<or> cls e' = Error) \<and> stack e' = msg_stack m @ nl @ nl @ stk"
  by (simp add: processRawMsgResponse_def Let_def)

lemma bypass_outcome:
  assumes "isBackgroundPage bgenv"
  shows "sendAwait stk bgenv chrome uid st bg None name (Some (JObj fs)) awaitRes =
     (case registry_get bg (HANDLERS_REGISTERED_BACKGROUND bg) name of
        None \<Rightarrow> (Rejected \<lparr>cls = TypeError, message = ''handler is not a function'', stack = stk\<rparr>, bg)
      | Some (OwnHandler h) \<Rightarrow>
          ((case h (JObj fs) of Inr v \<Rightarrow> Resolved (Plain v) | Inl e \<Rightarrow> Rejected e),
           bg\<lparr>invoked := invoked bg @ [(name, JObj fs)]\<rparr>)
      | Some (Inherited member) \<Rightarrow>
          ((case awaited member (JObj fs) of Inr v \<Rightarrow> Resolved (Plain v) | Inl e \<Rightarrow> Rejected e), bg))"
  using assms by (simp add: sendAwait_def Let_def truthy_def split: option.splits found.splits)

text \<open>
  An awaited send with no destination from a context that is not the background page:
  the request is encoded, handed to the host, and the first reply decides.
\<close>

lemma transport_send:
  assumes tab: "\<not> isBackgroundPage env" and d: "distinct (map fst fs)"
    and m: "m = \<lparr>msg_name = name, msg_bm = JObj (enc_fields fs),
                 msg_objUrls = enc_urls (next_handle (store c)) fs, msg_to = None, msg_uid = uid,
                 msg_stack = st, msg_responseName = None, msg_propagateToParent = False\<rparr>"
  shows "fst (sendAwait stk env chrome uid st c None name (Some (JObj fs)) True) =
     (case chrome m (enc_store (store c) fs) of
        (hst, s1) \<Rightarrow> fst (sendRaw_promise stk env True None m s1 hst))"
  using tab
  by (simp add: sendAwait_def Let_def truthy_def encode_object [OF d] sendRaw_def or_null_def truthy_str_def m
      split: prod.splits)

lemma channel_unregistered:
  assumes "HANDLERS_REGISTERED_BACKGROUND bg (msg_name m) = None"
  shows "\<exists>le'. direct_channel_to_bg rw clone bg le m s = (Delivered [RUndefined] le', s)
           \<and> (clone (msg_bm m) \<noteq> None \<longrightarrow> le' = le)"
  using assms
  by (simp add: direct_channel_to_bg_def bgListen_onMessage_def split: option.splits)

lemma channel_not_cloned:
  assumes "clone (msg_bm m) = None"
  shows "direct_channel_to_bg rw clone bg le m s
           = (Delivered [RUndefined] (LastError (Some ''The object could not be cloned.'')), s)"
  using assms by (simp add: direct_channel_to_bg_def)

lemma channel_registered:
  assumes reg: "HANDLERS_REGISTERED_BACKGROUND bg (msg_name m) = Some h"
    and cl: "clone (msg_bm m) = Some (msg_bm m)"
    and dec: "replaceObjUrlWithBuf s (msg_bm m) (msg_objUrls m) = (Inr bm, s2)"
    and res: "sendRawResponse rw s2 (h bm) = (r, s3)"
    and cr: "clone_result clone r = Some r"
  shows "direct_channel_to_bg rw clone bg le m s = (Delivered [RObject r] NoLastError, s3)"
  using reg cl dec res cr
  by (simp add: direct_channel_to_bg_def bgListen_onMessage_def dispatch_def direct_respond_def)

text \<open>
  When the platform cannot clone the encoded request, the awaited call over the channel
  rejects with the error for an object that could not be cloned.
\<close>

lemma transport_not_cloned:
  assumes tab: "\<not> isBackgroundPage env" and d: "distinct (map fst fs)"
    and u: "clone (JObj (enc_fields fs)) = None"
  shows "fst (sendAwait stk env (direct_channel_to_bg rw clone bg le) uid st c None name (Some (JObj fs)) True)
              = Rejected \<lparr>cls = Error,
                  message = ''BrowserMsg.sendAwait('' @ name
                              @ '') failed with lastError: The object could not be cloned.'',
                  stack = st @ nl @ nl @ stk\<rparr>"
proof -
  define m where "m = \<lparr>msg_name = name, msg_bm = JObj (enc_fields fs),
                 msg_objUrls = enc_urls (next_handle (store c)) fs, msg_to = None, msg_uid = uid,
                 msg_stack = st, msg_responseName = None, msg_propagateToParent = False\<rparr>"
  have mf: "msg_name m = name" "msg_stack m = st" by (simp_all add: m_def)
  from u have "clone (msg_bm m) = None" by (simp add: m_def)
  then have ch: "direct_channel_to_bg rw clone bg le m (enc_store (store c) fs)
         = (Delivered [RUndefined] (LastError (Some ''The object could not be cloned.'')), enc_store (store c) fs)"
    by (rule channel_not_cloned)
  show ?thesis
    using tab
    by (simp add: transport_send [OF tab d m_def] ch sendRaw_promise_def processRawMsgResponse_def
        lastError_text_def truthy_str_def or_empty_def Let_def mf)
qed

text \<open>
  Claim C4, as amended. An awaited send from the background page with no destination
  reads \<^verbatim>\<open>HANDLERS_REGISTERED_BACKGROUND[name]\<close> and calls it in-process. When a handler is
  registered and succeeds, the send resolves with the handler's value, and so does the
  same call made from another context over the direct channel, with its marshalling of
  request and response, provided the platform carries the encoded request and the
  encoded result as they are. When the handler fails, the in-process call rejects with
  the handler's own error, while the call over the channel rejects with the
  reconstruction of that error by \<^verbatim>\<open>jsonToErr\<close>. When the name is neither registered nor
  inherited, the in-process call rejects with a \<^verbatim>\<open>TypeError\<close> and runs nothing, while
  the call over the channel rejects with the error that classifies the missing reply: a
  \<^verbatim>\<open>BgNotReadyErr\<close> when the platform carries the request and reports that the message
  port closed before a response was received.
\<close>

theorem C4_bypass_and_transport:
  assumes bgp: "isBackgroundPage bgenv" and tab: "\<not> isBackgroundPage env"
    and d: "distinct (map fst fs)"
  shows "(HANDLERS_REGISTERED_BACKGROUND bg name = Some h \<and> h (JObj fs) = Inr v \<and> wf_object v
            \<and> carries clone (JObj (enc_fields fs)) \<and> carries clone (enc_value v) \<longrightarrow>
            fst (sendAwait stk bgenv chrome uid st bg None name (Some (JObj fs)) True) = Resolved (Plain v)
          \<and> invoked (snd (sendAwait stk bgenv chrome uid st bg None name (Some (JObj fs)) True))
              = invoked bg @ [(name, JObj fs)]
          \<and> fst (sendAwait stk env (direct_channel_to_bg rw clone bg le) uid st c None name (Some (JObj fs)) True)
              = Resolved (Plain v))
     \<and> (HANDLERS_REGISTERED_BACKGROUND bg name = Some h \<and> h (JObj fs) = Inl e
            \<and> carries clone (JObj (enc_fields fs)) \<longrightarrow>
            fst (sendAwait stk bgenv chrome uid st bg None name (Some (JObj fs)) True) = Rejected e
          \<and> (\<exists>m. msg_name m = name \<and> msg_stack m = st
                \<and> fst (sendAwait stk env (direct_channel_to_bg rw clone bg le) uid st c None name
                          (Some (JObj fs)) True)
                    = Rejected (jsonToErr stk (errToJson rw e) m)))
     \<and> (registry_get bg (HANDLERS_REGISTERED_BACKGROUND bg) name = None \<longrightarrow>
            sendAwait stk bgenv chrome uid st bg None name (Some (JObj fs)) True
              = (Rejected \<lparr>cls = TypeError, message = ''handler is not a function'', stack = stk\<rparr>, bg)
          \<and> (\<exists>e'. fst (sendAwait stk env (direct_channel_to_bg rw clone bg le) uid st c None name
                          (Some (JObj fs)) True) = Rejected e'
                \<and> (cls e' = BgNotReadyErr \<or> cls e' = Error) \<and> stack e' = st @ nl @ nl @ stk
                \<and> (carries clone (JObj (enc_fields fs))
                      \<and> le = LastError (Some ''The message port closed before a response was received.'') \<longrightarrow>
                     cls e' = BgNotReadyErr
                     \<and> message e' = ''BgNotReadyErr: BrowserMsg.sendAwait('' @ name
                           @ '') failed with lastError: The message port closed before a response was received.'')))"
proof -
  define m where "m = \<lparr>msg_name = name, msg_bm = JObj (enc_fields fs),
                 msg_objUrls = enc_urls (next_handle (store c)) fs, msg_to = None, msg_uid = uid,
                 msg_stack = st, msg_responseName = None, msg_propagateToParent = False\<rparr>"
  have mf: "msg_name m = name" "msg_stack m = st" "msg_bm m = JObj (enc_fields fs)"
      "msg_objUrls m = enc_urls (next_handle (store c)) fs"
    by (simp_all add: m_def)
  note send = transport_send [OF tab d m_def, of stk "direct_channel_to_bg rw clone bg le"]
  obtain s2 where dec: "replaceObjUrlWithBuf (enc_store (store c) fs) (msg_bm m) (msg_objUrls m) = (Inr (JObj fs), s2)"
    using decode_object [OF d, of "store c"]
    by (cases "replaceObjUrlWithBuf (enc_store (store c) fs) (JObj (enc_fields fs)) (enc_urls (next_handle (store c)) fs)")
       (simp add: mf)
  have carried: "clone (msg_bm m) = Some (msg_bm m)" if "carries clone (JObj (enc_fields fs))"
    using that by (simp add: carries_def mf)
  have 1: "fst (sendAwait stk bgenv chrome uid st bg None name (Some (JObj fs)) True) = Resolved (Plain v)
          \<and> invoked (snd (sendAwait stk bgenv chrome uid st bg None name (Some (JObj fs)) True))
              = invoked bg @ [(name, JObj fs)]
          \<and> fst (sendAwait stk env (direct_channel_to_bg rw clone bg le) uid st c None name (Some (JObj fs)) True)
              = Resolved (Plain v)"
    if a: "HANDLERS_REGISTERED_BACKGROUND bg name = Some h \<and> h (JObj fs) = Inr v \<and> wf_object v
            \<and> carries clone (JObj (enc_fields fs)) \<and> carries clone (enc_value v)"
  proof -
    obtain r s3 where res: "sendRawResponse rw s2 (h (JObj fs)) = (r, s3)"
      by (cases "sendRawResponse rw s2 (h (JObj fs))") auto
    have wf: "wf_object v" using a by simp
    from result_enc_value [OF wf, of rw s2] res a have "res_result r = enc_value v" by simp
    with a have cr: "clone_result clone r = Some r" by (simp add: carried_result)
    have reg: "HANDLERS_REGISTERED_BACKGROUND bg (msg_name m) = Some h" using a by (simp add: mf)
    from a have cl: "clone (msg_bm m) = Some (msg_bm m)" by (simp add: carried)
    note ch = channel_registered [OF reg cl dec res cr, of le]
    have "fst (sendAwait stk env (direct_channel_to_bg rw clone bg le) uid st c None name (Some (JObj fs)) True)
        = map_promise Plain (fst (processRawMsgResponse stk True None m NoLastError s3 (RObject r)))"
      using tab by (simp add: send ch sendRaw_promise_def split: prod.splits)
    moreover have "fst (processRawMsgResponse stk True None m NoLastError s3 (RObject r)) = Resolved v"
      using reply_to_result [OF wf, of stk None m NoLastError rw s2] res a by simp
    ultimately show ?thesis
      using a by (simp add: bypass_outcome [OF bgp] registry_get_def)
  qed
  have 2: "fst (sendAwait stk bgenv chrome uid st bg None name (Some (JObj fs)) True) = Rejected e
          \<and> (\<exists>m. msg_name m = name \<and> msg_stack m = st
                \<and> fst (sendAwait stk env (direct_channel_to_bg rw clone bg le) uid st c None name
                          (Some (JObj fs)) True)
                    = Rejected (jsonToErr stk (errToJson rw e) m))"
    if b: "HANDLERS_REGISTERED_BACKGROUND bg name = Some h \<and> h (JObj fs) = Inl e
            \<and> carries clone (JObj (enc_fields fs))"
  proof -
    let ?r = "\<lparr>res_result = JUndefined, res_objUrls = [], res_exception = Some (errToJson rw e)\<rparr>"
    have res: "sendRawResponse rw s2 (h (JObj fs)) = (?r, s2)"
      using b by (simp add: sendRawResponse_def)
    have cr: "clone_result clone ?r = Some ?r" by (simp add: clone_result_def)
    have reg: "HANDLERS_REGISTERED_BACKGROUND bg (msg_name m) = Some h" using b by (simp add: mf)
    from b have cl: "clone (msg_bm m) = Some (msg_bm m)" by (simp add: carried)
    note ch = channel_registered [OF reg cl dec res cr, of le]
    have "fst (sendAwait stk env (direct_channel_to_bg rw clone bg le) uid st c None name (Some (JObj fs)) True)
        = Rejected (jsonToErr stk (errToJson rw e) m)"
      using tab by (simp add: send ch sendRaw_promise_def processRawMsgResponse_def)
    with mf(1,2) show ?thesis
      using b by (auto simp: bypass_outcome [OF bgp] registry_get_def)
  qed
  have 3: "sendAwait stk bgenv chrome uid st bg None name (Some (JObj fs)) True
              = (Rejected \<lparr>cls = TypeError, message = ''handler is not a function'', stack = stk\<rparr>, bg)
          \<and> (\<exists>e'. fst (sendAwait stk env (direct_channel_to_bg rw clone bg le) uid st c None name
                          (Some (JObj fs)) True) = Rejected e'
                \<and> (cls e' = BgNotReadyErr \<or> cls e' = Error) \<and> stack e' = st @ nl @ nl @ stk
                \<and> (carries clone (JObj (enc_fields fs))
                      \<and> le = LastError (Some ''The message port closed before a response was received.'') \<longrightarrow>
                     cls e' = BgNotReadyErr
                     \<and> message e' = ''BgNotReadyErr: BrowserMsg.sendAwait('' @ name
                           @ '') failed with lastError: The message port closed before a response was received.''))"
    if n: "registry_get bg (HANDLERS_REGISTERED_BACKGROUND bg) name = None"
  proof -
    from n have "HANDLERS_REGISTERED_BACKGROUND bg (msg_name m) = None"
      by (simp add: mf registry_get_def split: option.splits)
    then have "\<exists>le'. direct_channel_to_bg rw clone bg le m (enc_store (store c) fs)
        = (Delivered [RUndefined] le', enc_store (store c) fs) \<and> (clone (msg_bm m) \<noteq> None \<longrightarrow> le' = le)"
      by (rule channel_unregistered)
    then obtain le' where ch: "direct_channel_to_bg rw clone bg le m (enc_store (store c) fs)
        = (Delivered [RUndefined] le', enc_store (store c) fs)"
      and same: "clone (msg_bm m) \<noteq> None \<longrightarrow> le' = le"
      by blast
    from no_reply_rejects [of stk m le' "enc_store (store c) fs"]
    obtain e' where e': "processRawMsgResponse stk True None m le' (enc_store (store c) fs) RUndefined
        = (Rejected e', enc_store (store c) fs)"
        "cls e' = BgNotReadyErr \<or> cls e' = Error" "stack e' = msg_stack m @ nl @ nl @ stk"
      by blast
    have closed: "cls e' = BgNotReadyErr
                     \<and> message e' = ''BgNotReadyErr: BrowserMsg.sendAwait('' @ name
                           @ '') failed with lastError: The message port closed before a response was received.''"
      if p: "carries clone (JObj (enc_fields fs))
             \<and> le = LastError (Some ''The message port closed before a response was received.'')"
    proof -
      from p same have "le' = LastError (Some ''The message port closed before a response was received.'')"
        by (simp add: carried)
      with e'(1) show ?thesis
        by (auto simp: processRawMsgResponse_def lastError_text_def truthy_str_def or_empty_def Let_def mf)
    qed
    have "fst (sendAwait stk env (direct_channel_to_bg rw clone bg le) uid st c None name (Some (JObj fs)) True)
        = Rejected e'"
      using tab by (simp add: send ch sendRaw_promise_def e'(1))
    with e'(2,3) mf(2) closed show ?thesis
      using n by (auto simp: bypass_outcome [OF bgp])
  qed
  from 1 2 3 show ?thesis by blast
qed

text \<open>
  The two paths differ. The handler \<^verbatim>\<open>db\<close> fails with a network error, which the
  in-process call passes on as it is and the channel returns with a new message and
  stack. For a name without handler the in-process call gives a \<^verbatim>\<open>TypeError\<close> and the
  channel a \<^verbatim>\<open>BgNotReadyErr\<close>. For the name \<^verbatim>\<open>toString\<close> the in-process call resolves
  with a string and the channel gives a \<^verbatim>\<open>BgNotReadyErr\<close>. On a platform that
  serialises as JSON the handler \<^verbatim>\<open>echo\<close> returns a payload with a nested byte buffer
  as it is in-process, and over the channel as an object of the bytes.
\<close>

theorem C4_failure_counterexample:
  "fst (sendAwait ''at bg'' demo_bg_env (\<lambda>_ s. (RuntimeMissing, s)) ''u1'' ''at caller'' demo_bg_ctx
          None ''db'' (Some (JObj [])) True) = Rejected demo_404
   \<and> fst (sendAwait ''at tab'' demo_tab_env
            (direct_channel_to_bg demo_rewrap faithful_clone demo_bg_ctx demo_port_closed)
            ''u1'' ''at caller'' demo_ctx None ''db'' (Some (JObj [])) True)
       = Rejected (demo_404\<lparr>message := ''BrowserMsg(db) 404 when GET-ing https://example.com/x'',
                              stack := stackInfo ''at caller'' (Some ''at responder'')\<rparr>)
   \<and> fst (sendAwait ''at bg'' demo_bg_env (\<lambda>_ s. (RuntimeMissing, s)) ''u1'' ''at caller'' demo_bg_ctx
          None ''nope'' (Some (JObj [])) True)
       = Rejected \<lparr>cls = TypeError, message = ''handler is not a function'', stack = ''at bg''\<rparr>
   \<and> fst (sendAwait ''at tab'' demo_tab_env
            (direct_channel_to_bg demo_rewrap faithful_clone demo_bg_ctx demo_port_closed)
            ''u1'' ''at caller'' demo_ctx None ''nope'' (Some (JObj [])) True)
       = Rejected \<lparr>cls = BgNotReadyErr,
           message = ''BgNotReadyErr: BrowserMsg.sendAwait(nope) failed with lastError: The message port closed before a response was received.'',
           stack = ''at caller'' @ nl @ nl @ ''at tab''\<rparr>
   \<and> fst (sendAwait ''at bg'' demo_bg_env (\<lambda>_ s. (RuntimeMissing, s)) ''u1'' ''at caller'' demo_bg_ctx
          None ''toString'' (Some (JObj [])) True)
       = Resolved (Plain (JStr ''[object Undefined]''))
   \<and> fst (sendAwait ''at tab'' demo_tab_env
            (direct_channel_to_bg demo_rewrap faithful_clone demo_bg_ctx demo_port_closed)
            ''u1'' ''at caller'' demo_ctx None ''toString'' (Some (JObj [])) True)
       = Rejected \<lparr>cls = BgNotReadyErr,
           message = ''BgNotReadyErr: BrowserMsg.sendAwait(toString) failed with lastError: The message port closed before a response was received.'',
           stack = ''at caller'' @ nl @ nl @ ''at tab''\<rparr>
   \<and> fst (sendAwait ''at bg'' demo_bg_env (\<lambda>_ s. (RuntimeMissing, s)) ''u1'' ''at caller'' demo_bg_ctx
          None ''echo'' (Some demo_nested) True)
       = Resolved (Plain (JObj [(''file'', JObj [(''bytes'', JBuf [1, 2])])]))
   \<and> fst (sendAwait ''at tab'' demo_tab_env
            (direct_channel_to_bg demo_rewrap json_clone demo_bg_ctx demo_port_closed)
            ''u1'' ''at caller'' demo_ctx None ''echo'' (Some demo_nested) True)
       = Resolved (Plain (JObj [(''file'', JObj [(''bytes'', JObj [(''0'', JNum 1), (''1'', JNum 2)])])]))"
  by (simp add: sendAwait_def sendRaw_def sendRaw_promise_def processRawMsgResponse_def direct_channel_to_bg_def
      clone_result_def faithful_clone_def json_clone_def demo_nested_def decimal.simps enumerate_eq_zip
      bgListen_onMessage_def dispatch_def sendRawResponse_def errToJson_def jsonToErr_def json_stack_def
      replaceBufWithObjUrlInplace_def replaceObjUrlWithBuf_def truthy_def typeof_object_def registry_get_def
      direct_respond_def or_null_def truthy_str_def lastError_text_def or_empty_def get_field_def
      demo_bg_env_def demo_tab_env_def demo_bg_ctx_def demo_ctx_def demo_404_def demo_port_closed_def
      demo_toString_def Let_def)

theorem C4_bypass_and_transport_witness:
  "isBackgroundPage demo_bg_env \<and> \<not> isBackgroundPage demo_tab_env
   \<and> distinct (map fst [(''data'', JBuf [1, 2, 3])])
   \<and> wf_object (JObj [(''data'', JBuf [1, 2, 3])])
   \<and> carries faithful_clone (JObj (enc_fields [(''data'', JBuf [1, 2, 3])]))
   \<and> carries faithful_clone (enc_value (JObj [(''data'', JBuf [1, 2, 3])]))
   \<and> fst (sendAwait ''at bg'' demo_bg_env (\<lambda>_ s. (RuntimeMissing, s)) ''u1'' ''at caller'' demo_bg_ctx
          None ''echo'' (Some (JObj [(''data'', JBuf [1, 2, 3])])) True)
       = Resolved (Plain (JObj [(''data'', JBuf [1, 2, 3])]))
   \<and> fst (sendAwait ''at tab'' demo_tab_env
            (direct_channel_to_bg demo_rewrap faithful_clone demo_bg_ctx demo_port_closed)
            ''u1'' ''at caller'' demo_ctx None ''echo'' (Some (JObj [(''data'', JBuf [1, 2, 3])])) True)
       = Resolved (Plain (JObj [(''data'', JBuf [1, 2, 3])]))
   \<and> registry_get demo_bg_ctx (HANDLERS_REGISTERED_BACKGROUND demo_bg_ctx) ''nope'' = None
   \<and> fst (sendAwait ''at bg'' demo_bg_env (\<lambda>_ s. (RuntimeMissing, s)) ''u1'' ''at caller'' demo_bg_ctx
          None ''nope'' (Some (JObj [(''data'', JBuf [1, 2, 3])])) True)
       = Rejected \<lparr>cls = TypeError, message = ''handler is not a function'', stack = ''at bg''\<rparr>"
proof -
  have h: "isBackgroundPage demo_bg_env" "\<not> isBackgroundPage demo_tab_env"
      "distinct (map fst [(''data'', JBuf [1, 2, 3])])"
    by (simp_all add: demo_bg_env_def demo_tab_env_def)
  have a: "HANDLERS_REGISTERED_BACKGROUND demo_bg_ctx ''echo'' = Some (\<lambda>bm. Inr bm)"
      "wf_object (JObj [(''data'', JBuf [1, 2, 3])])"
      "carries faithful_clone (JObj (enc_fields [(''data'', JBuf [1, 2, 3])]))"
      "carries faithful_clone (enc_value (JObj [(''data'', JBuf [1, 2, 3])]))"
    by (simp_all add: demo_bg_ctx_def wf_object_def carries_def faithful_clone_def)
  have b: "registry_get demo_bg_ctx (HANDLERS_REGISTERED_BACKGROUND demo_bg_ctx) ''nope'' = None"
    by (simp add: registry_get_def demo_bg_ctx_def demo_ctx_def)
  from C4_bypass_and_transport [OF h, where bg = demo_bg_ctx and name = "''echo''" and h = "\<lambda>bm. Inr bm"
      and v = "JObj [(''data'', JBuf [1, 2, 3])]" and clone = faithful_clone] a
  have 1: "fst (sendAwait ''at bg'' demo_bg_env (\<lambda>_ s. (RuntimeMissing, s)) ''u1'' ''at caller'' demo_bg_ctx
          None ''echo'' (Some (JObj [(''data'', JBuf [1, 2, 3])])) True)
       = Resolved (Plain (JObj [(''data'', JBuf [1, 2, 3])]))"
    "fst (sendAwait ''at tab'' demo_tab_env
            (direct_channel_to_bg demo_rewrap faithful_clone demo_bg_ctx demo_port_closed)
            ''u1'' ''at caller'' demo_ctx None ''echo'' (Some (JObj [(''data'', JBuf [1, 2, 3])])) True)
       = Resolved (Plain (JObj [(''data'', JBuf [1, 2, 3])]))"
    by simp_all
  from C4_bypass_and_transport [OF h, where bg = demo_bg_ctx and name = "''nope''"
      and stk = "''at bg''" and chrome = "\<lambda>_ s. (RuntimeMissing, s)" and uid = "''u1''" and st = "''at caller''"] b
  have 2: "sendAwait ''at bg'' demo_bg_env (\<lambda>_ s. (RuntimeMissing, s)) ''u1'' ''at caller'' demo_bg_ctx
          None ''nope'' (Some (JObj [(''data'', JBuf [1, 2, 3])])) True
       = (Rejected \<lparr>cls = TypeError, message = ''handler is not a function'', stack = ''at bg''\<rparr>, demo_bg_ctx)"
    by blast
  from 1 2 h a b show ?thesis by simp
qed




end
